theory Spec2Isabelle
  imports Main
begin

section \<open>Python values as the scripts see them\<close>

text \<open>
  The four scripts (\<open>quick_grok_access.py\<close>, \<open>show_all_grok_responses.py\<close>,
  \<open>test_grok_access.py\<close>, \<open>view_grok_responses.py\<close>) read JSON from a local HTTP
  API, look fields up in the decoded dictionaries and print formatted lines.

  A Python \<open>str\<close> is a sequence of Unicode code points, so it is a list of naturals
  here; \<open>lit\<close> turns an ASCII literal into one. \<open>len\<close> and slicing count code
  points, as Python does.

  A decoded JSON document is a \<open>json\<close> value: \<open>None\<close>, a \<open>bool\<close>, an \<open>int\<close>
  (unbounded), a \<open>str\<close>, a \<open>list\<close> or a \<open>dict\<close> (insertion ordered, keys
  \<open>str\<close>, kept as an association list whose first entry for a key is the one that
  counts). JSON numbers with a fraction or an exponent (Python \<open>float\<close>) are not
  part of the model.
\<close>

type_synonym str = "nat list"

definition lit :: "string \<Rightarrow> str" where
  "lit s = map of_char s"

datatype json =
    JNull
  | JBool bool
  | JInt int
  | JStr str
  | JArr "json list"
  | JObj "(str \<times> json) list"

text \<open>
  The exception classes the scripts can meet. \<open>JSONDecodeError\<close>,
  \<open>UnicodeEncodeError\<close> and \<open>UnicodeDecodeError\<close> are subclasses of \<open>ValueError\<close>;
  every class but \<open>KeyboardInterrupt\<close> is a subclass of \<open>Exception\<close>.
\<close>

datatype exn =
    KeyError
  | TypeError
  | ValueError
  | AttributeError
  | IndexError
  | OverflowError
  | JSONDecodeError
  | UnicodeEncodeError
  | UnicodeDecodeError
  | RequestException
  | OSError
  | EOFError
  | KeyboardInterrupt

definition is_Exception :: "exn \<Rightarrow> bool" where
  "is_Exception e = (e \<noteq> KeyboardInterrupt)"

definition is_ValueError :: "exn \<Rightarrow> bool" where
  "is_ValueError e =
     (e = ValueError \<or> e = JSONDecodeError \<or> e = UnicodeEncodeError \<or> e = UnicodeDecodeError)"

text \<open>
  The result of evaluating a Python expression: a value, a raised exception, or
  \<open>Unmodelled\<close> where what Python does is not computed by this model: a text it does
  not build (the \<open>repr\<close> of a list or dict, a date format outside the ISO form the
  server sends, a digit outside ASCII) or a behaviour that depends on the version of
  Python or on the settings of the console. Nothing is proved about an \<open>Unmodelled\<close>
  run, and no handler of the model catches it.
\<close>

datatype 'a res = Ok 'a | Raise exn | Unmodelled

fun rbind :: "'a res \<Rightarrow> ('a \<Rightarrow> 'b res) \<Rightarrow> 'b res" where
  "rbind (Ok x) f = f x"
| "rbind (Raise e) f = Raise e"
| "rbind Unmodelled f = Unmodelled"

subsection \<open>Dictionary access, truth values, lengths and slices\<close>

text \<open>\<open>d.get(k, default)\<close>: only a dict has the method.\<close>

fun dict_get :: "json \<Rightarrow> str \<Rightarrow> json \<Rightarrow> json res" where
  "dict_get (JObj kvs) k dflt = Ok (case map_of kvs k of Some v \<Rightarrow> v | None \<Rightarrow> dflt)"
| "dict_get _ k dflt = Raise AttributeError"

text \<open>\<open>d[k]\<close> with a \<open>str\<close> key: \<open>KeyError\<close> on a dict without the key,
  \<open>TypeError\<close> on every other value.\<close>

fun subscript :: "json \<Rightarrow> str \<Rightarrow> json res" where
  "subscript (JObj kvs) k = (case map_of kvs k of Some v \<Rightarrow> Ok v | None \<Rightarrow> Raise KeyError)"
| "subscript _ k = Raise TypeError"

text \<open>Truth value testing (\<open>if x:\<close>, \<open>not x\<close>).\<close>

fun truthy :: "json \<Rightarrow> bool" where
  "truthy JNull = False"
| "truthy (JBool b) = b"
| "truthy (JInt n) = (n \<noteq> 0)"
| "truthy (JStr s) = (s \<noteq> [])"
| "truthy (JArr xs) = (xs \<noteq> [])"
| "truthy (JObj kvs) = (kvs \<noteq> [])"

text \<open>\<open>len(x)\<close>.\<close>

fun py_len :: "json \<Rightarrow> nat res" where
  "py_len (JStr s) = Ok (length s)"
| "py_len (JArr xs) = Ok (length xs)"
| "py_len (JObj kvs) = Ok (length kvs)"
| "py_len _ = Raise TypeError"

text \<open>\<open>x[:n]\<close>. A dict raises \<open>TypeError\<close> up to Python 3.11 and \<open>KeyError\<close>
  from 3.12 on, so it is not modelled.\<close>

fun slice_to :: "nat \<Rightarrow> json \<Rightarrow> json res" where
  "slice_to n (JStr s) = Ok (JStr (take n s))"
| "slice_to n (JArr xs) = Ok (JArr (take n xs))"
| "slice_to n (JObj kvs) = Unmodelled"
| "slice_to n _ = Raise TypeError"

subsection \<open>Formatting\<close>

text \<open>Decimal digits of a natural number, and \<open>str(n)\<close> of an int.\<close>

fun digits :: "nat \<Rightarrow> str" where
  "digits n = (if n < 10 then [48 + n] else digits (n div 10) @ [48 + n mod 10])"

declare digits.simps [simp del]

definition str_int :: "int \<Rightarrow> str" where
  "str_int n = (if n < 0 then lit ''-'' @ digits (nat (- n)) else digits (nat n))"

text \<open>
  Python versions differ on an int of more than 4300 digits: the newer ones refuse to
  turn it into text (\<open>ValueError\<close>), the older ones do it. Such an int is not
  modelled.
\<close>

definition many_digits :: "int \<Rightarrow> bool" where
  "many_digits n = (4300 < length (digits (nat \<bar>n\<bar>)))"

definition int_text :: "int \<Rightarrow> str res" where
  "int_text n = (if many_digits n then Unmodelled else Ok (str_int n))"

text \<open>
  \<open>str(x)\<close>, which is what an f-string field without a format specification and
  \<open>print\<close> apply. The text of a list or a dict is its \<open>repr\<close>, which is not
  modelled.
\<close>

fun py_str :: "json \<Rightarrow> str res" where
  "py_str (JStr s) = Ok s"
| "py_str (JInt n) = int_text n"
| "py_str JNull = Ok (lit ''None'')"
| "py_str (JBool b) = Ok (if b then lit ''True'' else lit ''False'')"
| "py_str (JArr xs) = Unmodelled"
| "py_str (JObj kvs) = Unmodelled"

text \<open>A decimal digit, and the number that decimal digits write.\<close>

definition is_digit :: "nat \<Rightarrow> bool" where
  "is_digit c = (48 \<le> c \<and> c \<le> 57)"

definition num_of :: "str \<Rightarrow> nat" where
  "num_of ds = foldl (\<lambda>n c. 10 * n + (c - 48)) 0 ds"

text \<open>The format specification \<open>:,\<close> on an int: groups of three digits.\<close>

fun group3 :: "nat \<Rightarrow> str" where
  "group3 n =
     (if n < 1000 then digits n
      else group3 (n div 1000) @ lit '','' @
           digits (n mod 1000 div 100) @ digits (n mod 100 div 10) @ digits (n mod 10))"

declare group3.simps [simp del]

definition commas :: "int \<Rightarrow> str" where
  "commas n = (if n < 0 then lit ''-'' @ group3 (nat (- n)) else group3 (nat n))"

text \<open>
  \<open>f"{x:,}"\<close>: a bool is formatted as the int it is, a \<open>str\<close> refuses the
  specification with \<open>ValueError\<close>, and \<open>None\<close>, a list and a dict refuse every
  non-empty specification with \<open>TypeError\<close>.
\<close>

fun fmt_comma :: "json \<Rightarrow> str res" where
  "fmt_comma (JInt n) = (if many_digits n then Unmodelled else Ok (commas n))"
| "fmt_comma (JBool b) = Ok (if b then lit ''1'' else lit ''0'')"
| "fmt_comma (JStr s) = Raise ValueError"
| "fmt_comma _ = Raise TypeError"

subsection \<open>\<open>f"{x/1000:.1f}"\<close>\<close>

text \<open>
  \<open>x/1000\<close> on an int is true division: the binary64 float nearest to the exact
  quotient (ties to even), or \<open>OverflowError\<close> when that is out of range.
  \<open>:.1f\<close> prints the decimal with one fractional digit nearest to the exact value of
  that float (ties to even). Both roundings are computed here on integers: a
  positive float is a pair \<open>(m, s)\<close> standing for \<open>m * 2 ^ s\<close>.
\<close>

fun bit_length :: "nat \<Rightarrow> nat" where
  "bit_length n = (if n = 0 then 0 else Suc (bit_length (n div 2)))"

declare bit_length.simps [simp del]

definition rne_div :: "nat \<Rightarrow> nat \<Rightarrow> nat" where
  "rne_div n d =
     (let q = n div d; r = n mod d
      in if 2 * r < d then q
         else if d < 2 * r then Suc q
         else if even q then q else Suc q)"

definition floor_log2_ratio :: "nat \<Rightarrow> nat \<Rightarrow> int" where
  "floor_log2_ratio a b =
     (let d = int (bit_length a) - int (bit_length b)
      in if (if 0 \<le> d then b * 2 ^ nat d \<le> a else b \<le> a * 2 ^ nat (- d))
         then d else d - 1)"

definition true_div :: "nat \<Rightarrow> nat \<Rightarrow> (nat \<times> int) option" where
  "true_div a b =
     (let e = floor_log2_ratio a b;
          s = e - 52;
          m = (if 0 \<le> s then rne_div a (b * 2 ^ nat s) else rne_div (a * 2 ^ nat (- s)) b)
      in if 1024 \<le> e \<or> (e = 1023 \<and> m = 2 ^ 53) then None else Some (m, s))"

definition fixed1 :: "nat \<times> int \<Rightarrow> str" where
  "fixed1 x =
     (case x of (m, s) \<Rightarrow>
        let t = (if 0 \<le> s then 10 * m * 2 ^ nat s else rne_div (10 * m) (2 ^ nat (- s)))
        in digits (t div 10) @ lit ''.'' @ digits (t mod 10))"

definition secs_1f :: "int \<Rightarrow> str res" where
  "secs_1f n =
     (if n = 0 then Ok (lit ''0.0'')
      else case true_div (nat \<bar>n\<bar>) 1000 of
             None \<Rightarrow> Raise OverflowError
           | Some x \<Rightarrow> Ok ((if n < 0 then lit ''-'' else []) @ fixed1 x))"

text \<open>\<open>f"{x/1000:.1f}"\<close> on a decoded value: only an int (or a bool, which is
  one) can be divided.\<close>

fun fmt_secs :: "json \<Rightarrow> str res" where
  "fmt_secs (JInt n) = secs_1f n"
| "fmt_secs (JBool b) = secs_1f (if b then 1 else 0)"
| "fmt_secs _ = Raise TypeError"

text \<open>\<open>x < 1000\<close>.\<close>

fun lt_1000 :: "json \<Rightarrow> bool res" where
  "lt_1000 (JInt n) = Ok (n < 1000)"
| "lt_1000 (JBool b) = Ok True"
| "lt_1000 _ = Raise TypeError"

text \<open>An f-string: the fields are evaluated and formatted from left to right, and
  the first one that fails ends the evaluation.\<close>

fun fstring :: "str res list \<Rightarrow> str res" where
  "fstring [] = Ok []"
| "fstring (p # ps) = rbind p (\<lambda>s. rbind (fstring ps) (\<lambda>t. Ok (s @ t)))"

section \<open>\<open>view_grok_responses.py\<close>: the two formatters\<close>

text \<open>
  \<^verbatim>\<open>
  def format_tokens(tokens):
      return f"{tokens:,}" if tokens else "N/A"

  def format_time(ms):
      if not ms:
          return "N/A"
      return f"{ms}ms" if ms < 1000 else f"{ms/1000:.1f}s"
  \<close>
\<close>

definition format_tokens :: "json \<Rightarrow> str res" where
  "format_tokens tokens = (if truthy tokens then fmt_comma tokens else Ok (lit ''N/A''))"

definition format_time :: "json \<Rightarrow> str res" where
  "format_time ms =
     (if \<not> truthy ms then Ok (lit ''N/A'')
      else rbind (lt_1000 ms) (\<lambda>b.
             if b then fstring [py_str ms, Ok (lit ''ms'')]
             else fstring [fmt_secs ms, Ok (lit ''s'')]))"

section \<open>What a run does: console, requests, files\<close>

text \<open>
  A run prints, asks the server and writes files. \<open>world\<close> records all three in
  order. One \<open>Line\<close> is one call of \<open>print\<close> (its text may hold newlines);
  \<open>Prompt\<close> is the prompt of one call of \<open>input\<close>; \<open>Report p e\<close> is
  \<open>print(f"{p}{e}")\<close> for a caught exception \<open>e\<close>, whose message text is not
  modelled; \<open>Traceback e\<close> is \<open>traceback.print_exc()\<close>; \<open>Print_repr p v\<close> is
  \<open>print(p, v)\<close> for a list \<open>v\<close>. \<open>fetched\<close> holds the addresses asked for, through
  \<open>requests.get\<close> or through \<open>curl\<close>.
\<close>

datatype printed =
    Line str
  | Prompt str
  | Report str exn
  | Traceback exn
  | Print_repr str json

record world =
  out :: "printed list"
  fetched :: "str list"
  files :: "(str \<times> str) list"

text \<open>
  The surroundings of a run. \<open>http_get url\<close> is the outcome of
  \<open>requests.get(url)\<close>: a response with its status code and the outcome of its
  \<open>.json()\<close>, or an exception (connection refused). \<open>curl url\<close> is the outcome
  of \<open>json.loads(subprocess.run(['curl', '-s', url], ...).stdout)\<close>. \<open>writable\<close>
  tells whether the system opens the file of that name for writing.
\<close>

record response =
  status_code :: int
  body :: "json res"

record env =
  http_get :: "str \<Rightarrow> response res"
  curl :: "str \<Rightarrow> json res"
  writable :: "str \<Rightarrow> bool"

type_synonym 'a io = "world \<Rightarrow> 'a res \<times> world"

definition ret :: "'a \<Rightarrow> 'a io" where
  "ret x w = (Ok x, w)"

definition bind :: "'a io \<Rightarrow> ('a \<Rightarrow> 'b io) \<Rightarrow> 'b io" where
  "bind m f w =
     (case m w of
        (Ok x, w') \<Rightarrow> f x w'
      | (Raise e, w') \<Rightarrow> (Raise e, w')
      | (Unmodelled, w') \<Rightarrow> (Unmodelled, w'))"

text \<open>Evaluate an expression, then go on with its value.\<close>

definition let_val :: "'a res \<Rightarrow> ('a \<Rightarrow> 'b io) \<Rightarrow> 'b io" where
  "let_val r f w =
     (case r of Ok x \<Rightarrow> f x w | Raise e \<Rightarrow> (Raise e, w) | Unmodelled \<Rightarrow> (Unmodelled, w))"

text \<open>
  The console encodes in UTF-8 (the marks the scripts print need it). A text is
  written whole or not at all. A surrogate code point (U+D800 to U+DFFF, which
  \<open>json\<close> decodes from an escape such as \<open>\ud800\<close>) has no encoding: \<open>print\<close> raises
  \<open>UnicodeEncodeError\<close> on it, except that a console opened with the error handler
  \<open>surrogateescape\<close> writes those from U+DC80 to U+DCFF as single bytes; a text whose
  only surrogates are of that kind is not modelled. The message of an exception and the
  \<open>repr\<close> of a value escape what they quote, so they can be written.
\<close>

definition is_surrogate :: "nat \<Rightarrow> bool" where
  "is_surrogate c = (55296 \<le> c \<and> c \<le> 57343)"

definition is_escapable :: "nat \<Rightarrow> bool" where
  "is_escapable c = (56448 \<le> c \<and> c \<le> 56575)"

definition encodable :: "str \<Rightarrow> bool" where
  "encodable s = list_all (\<lambda>c. \<not> is_surrogate c) s"

text \<open>Encoding a text: done, refused, or up to the error handler.\<close>

definition encode_text :: "str \<Rightarrow> unit res" where
  "encode_text s =
     (if encodable s then Ok ()
      else if list_ex (\<lambda>c. is_surrogate c \<and> \<not> is_escapable c) s then Raise UnicodeEncodeError
      else Unmodelled)"

fun printed_text :: "printed \<Rightarrow> str" where
  "printed_text (Line s) = s"
| "printed_text (Prompt s) = s"
| "printed_text (Report p e) = p"
| "printed_text (Traceback e) = []"
| "printed_text (Print_repr p v) = p"

definition emit :: "printed \<Rightarrow> unit io" where
  "emit p w =
     (case encode_text (printed_text p) of
        Ok u \<Rightarrow> (Ok (), w\<lparr>out := out w @ [p]\<rparr>)
      | Raise e \<Rightarrow> (Raise e, w)
      | Unmodelled \<Rightarrow> (Unmodelled, w))"

text \<open>\<open>print(f"...")\<close>: the text is evaluated first; nothing is printed when that
  fails or when the text cannot be encoded.\<close>

definition print :: "str res \<Rightarrow> unit io" where
  "print r = let_val r (\<lambda>s. emit (Line s))"

definition say :: "string \<Rightarrow> unit io" where
  "say s = emit (Line (lit s))"

text \<open>A sequence of statements: the first one that does not finish normally ends
  it.\<close>

fun block :: "unit io list \<Rightarrow> unit io" where
  "block [] = ret ()"
| "block (c # cs) = bind c (\<lambda>_. block cs)"

fun for_each :: "'a list \<Rightarrow> ('a \<Rightarrow> unit io) \<Rightarrow> unit io" where
  "for_each [] f = ret ()"
| "for_each (x # xs) f = bind (f x) (\<lambda>_. for_each xs f)"

text \<open>\<open>try: body  except <classes> as e: handler\<close>. What the body did before it
  raised stays done.\<close>

definition try_except :: "'a io \<Rightarrow> (exn \<Rightarrow> bool) \<Rightarrow> (exn \<Rightarrow> 'a io) \<Rightarrow> 'a io" where
  "try_except m catches handler w =
     (case m w of
        (Raise e, w') \<Rightarrow> if catches e then handler e w' else (Raise e, w')
      | r \<Rightarrow> r)"

text \<open>\<open>requests.get(url)\<close>, and
  \<open>json.loads(subprocess.run(['curl', '-s', url], capture_output=True, text=True).stdout)\<close>.\<close>

definition requests_get :: "env \<Rightarrow> str \<Rightarrow> response io" where
  "requests_get E url w = (http_get E url, w\<lparr>fetched := fetched w @ [url]\<rparr>)"

definition curl_json :: "env \<Rightarrow> str \<Rightarrow> json io" where
  "curl_json E url w = (curl E url, w\<lparr>fetched := fetched w @ [url]\<rparr>)"

text \<open>Iterating over a decoded value: the items of a list, the keys of a dict,
  the characters of a \<open>str\<close>.\<close>

fun py_iter :: "json \<Rightarrow> json list res" where
  "py_iter (JArr xs) = Ok xs"
| "py_iter (JObj kvs) = Ok (map (\<lambda>kv. JStr (fst kv)) kvs)"
| "py_iter (JStr s) = Ok (map (\<lambda>c. JStr [c]) s)"
| "py_iter _ = Raise TypeError"

section \<open>\<open>json.dump(value, f, indent=2)\<close>\<close>

text \<open>
  The text Python's encoder writes with its defaults and \<open>indent=2\<close>: every
  character outside \<open>' '..'~'\<close>, the quote and the backslash are escaped
  (\<open>ensure_ascii\<close>), a character beyond U+FFFF as a surrogate pair; items are
  separated by a comma and a new line, a key from its value by \<open>': '\<close>; the empty
  list and dict are \<open>[]\<close> and \<open>{}\<close>.
\<close>

definition hex_digit :: "nat \<Rightarrow> nat" where
  "hex_digit d = (if d < 10 then 48 + d else 87 + d)"

definition u_escape :: "nat \<Rightarrow> str" where
  "u_escape n =
     [92, 117, hex_digit (n div 4096 mod 16), hex_digit (n div 256 mod 16),
      hex_digit (n div 16 mod 16), hex_digit (n mod 16)]"

definition escape_char :: "nat \<Rightarrow> str" where
  "escape_char c =
     (if c = 34 then [92, 34]
      else if c = 92 then [92, 92]
      else if c = 10 then [92, 110]
      else if c = 13 then [92, 114]
      else if c = 9 then [92, 116]
      else if c = 12 then [92, 102]
      else if c = 8 then [92, 98]
      else if 32 \<le> c \<and> c \<le> 126 then [c]
      else if c < 65536 then u_escape c
      else u_escape (55296 + (c - 65536) div 1024 mod 1024) @
           u_escape (56320 + (c - 65536) mod 1024))"

definition dumps_str :: "str \<Rightarrow> str" where
  "dumps_str s = [34] @ concat (map escape_char s) @ [34]"

fun join :: "str \<Rightarrow> str list \<Rightarrow> str" where
  "join sep [] = []"
| "join sep [x] = x"
| "join sep (x # y # ys) = x @ sep @ join sep (y # ys)"

definition newline_indent :: "nat \<Rightarrow> str" where
  "newline_indent lvl = 10 # replicate (2 * lvl) 32"

fun dumps_at :: "nat \<Rightarrow> json \<Rightarrow> str" where
  "dumps_at lvl JNull = lit ''null''"
| "dumps_at lvl (JBool b) = (if b then lit ''true'' else lit ''false'')"
| "dumps_at lvl (JInt n) = str_int n"
| "dumps_at lvl (JStr s) = dumps_str s"
| "dumps_at lvl (JArr xs) =
     (if xs = [] then lit ''[]''
      else lit ''['' @ newline_indent (Suc lvl) @
           join (lit '','' @ newline_indent (Suc lvl)) (map (dumps_at (Suc lvl)) xs) @
           newline_indent lvl @ lit '']'')"
| "dumps_at lvl (JObj kvs) =
     (if kvs = [] then lit ''{}''
      else lit ''{'' @ newline_indent (Suc lvl) @
           join (lit '','' @ newline_indent (Suc lvl))
             (map (\<lambda>kv. dumps_str (fst kv) @ lit '': '' @ dumps_at (Suc lvl) (snd kv)) kvs) @
           newline_indent lvl @ lit ''}'')"

definition dumps :: "json \<Rightarrow> str" where
  "dumps v = dumps_at 0 v"

text \<open>
  The encoder and the decoder recurse on nested lists and dicts, and Python limits the
  depth of recursion (by default to 1000 frames, less what the caller uses). The model
  covers values nested at most 100 deep, which every default limit admits, and ints
  of at most 4300 digits.
\<close>

fun depth :: "json \<Rightarrow> nat" where
  "depth (JArr xs) = Suc (fold max (map depth xs) 0)"
| "depth (JObj kvs) = Suc (fold max (map (\<lambda>kv. depth (snd kv)) kvs) 0)"
| "depth _ = 0"

fun ints_ok :: "json \<Rightarrow> bool" where
  "ints_ok (JInt n) = (\<not> many_digits n)"
| "ints_ok (JArr xs) = list_all ints_ok xs"
| "ints_ok (JObj kvs) = list_all (\<lambda>kv. ints_ok (snd kv)) kvs"
| "ints_ok _ = True"

definition dumpable :: "json \<Rightarrow> bool" where
  "dumpable v = (depth v \<le> 100 \<and> ints_ok v)"

text \<open>\<open>json.dumps(value, indent=2)\<close>.\<close>

definition json_dumps :: "json \<Rightarrow> str res" where
  "json_dumps v = (if dumpable v then Ok (dumps v) else Unmodelled)"

text \<open>
  \<open>with open(name, 'w') as f: json.dump(value, f, indent=2)\<close>. \<open>open\<close> encodes the
  name for the file system, in UTF-8 with the error handler \<open>surrogateescape\<close>: a
  surrogate outside U+DC80 to U+DCFF is a \<open>UnicodeEncodeError\<close>. Then a name holding
  the character U+0000 is a \<open>ValueError\<close>. Then the system opens the file or refuses
  (\<open>OSError\<close>). The text written is ASCII, so writing it does not fail on a
  character, and the file is replaced by the text.
\<close>

definition open_name :: "env \<Rightarrow> str \<Rightarrow> unit res" where
  "open_name E name =
     (if list_ex (\<lambda>c. is_surrogate c \<and> \<not> is_escapable c) name then Raise UnicodeEncodeError
      else if 0 \<in> set name then Raise ValueError
      else if \<not> writable E name then Raise OSError
      else Ok ())"

definition write_json :: "env \<Rightarrow> str \<Rightarrow> json \<Rightarrow> unit io" where
  "write_json E name v w =
     (case open_name E name of
        Raise e \<Rightarrow> (Raise e, w)
      | Unmodelled \<Rightarrow> (Unmodelled, w)
      | Ok u \<Rightarrow>
          if \<not> dumpable v then (Unmodelled, w)
          else (Ok (), w\<lparr>files := files w @ [(name, dumps v)]\<rparr>))"

section \<open>\<open>json.loads(text)\<close>\<close>

text \<open>
  The decoder, as the scanner of CPython runs with its defaults (strict): white space
  is blank, tab, new line and carriage return; a string ends at the first quote that
  is not escaped, must not hold a control character, and a \<open>\u\<close> escape of a high
  surrogate followed by one of a low surrogate is one character; a number is an
  optional minus and \<open>0\<close> or digits not starting with \<open>0\<close>; a dict keeps the last
  value of a repeated key at the place of the first. Every malformed text is a
  \<open>JSONDecodeError\<close>.

  A number with a fraction or an exponent, \<open>NaN\<close>, \<open>Infinity\<close> and \<open>-Infinity\<close> are
  floats, which the model does not have: the decoder is \<open>Unmodelled\<close> on a text in
  which it meets one, as it is on nesting deeper than 100 and on a number of more
  than 4300 digits.
\<close>

definition is_ws :: "nat \<Rightarrow> bool" where
  "is_ws c = (c = 32 \<or> c = 9 \<or> c = 10 \<or> c = 13)"

definition skip_ws :: "str \<Rightarrow> str" where
  "skip_ws s = dropWhile is_ws s"

definition hex_val :: "nat \<Rightarrow> nat option" where
  "hex_val c =
     (if 48 \<le> c \<and> c \<le> 57 then Some (c - 48)
      else if 97 \<le> c \<and> c \<le> 102 then Some (c - 87)
      else if 65 \<le> c \<and> c \<le> 70 then Some (c - 55)
      else None)"

definition hex4 :: "nat \<Rightarrow> nat \<Rightarrow> nat \<Rightarrow> nat \<Rightarrow> nat option" where
  "hex4 a b c d =
     (case (hex_val a, hex_val b, hex_val c, hex_val d) of
        (Some x3, Some x2, Some x1, Some x0) \<Rightarrow> Some (4096 * x3 + 256 * x2 + 16 * x1 + x0)
      | _ \<Rightarrow> None)"

definition unescape :: "nat \<Rightarrow> nat option" where
  "unescape e =
     (if e = 34 \<or> e = 92 \<or> e = 47 then Some e
      else if e = 98 then Some 8
      else if e = 102 then Some 12
      else if e = 110 then Some 10
      else if e = 114 then Some 13
      else if e = 116 then Some 9
      else None)"

definition is_high :: "nat \<Rightarrow> bool" where
  "is_high n = (55296 \<le> n \<and> n < 56320)"

definition is_low :: "nat \<Rightarrow> bool" where
  "is_low n = (56320 \<le> n \<and> n < 57344)"

definition join_surrogates :: "nat \<Rightarrow> nat \<Rightarrow> nat" where
  "join_surrogates hi lo = 65536 + (hi - 55296) * 1024 + (lo - 56320)"

text \<open>The text of a string, from after its opening quote: the characters read so
  far, then the text left.\<close>

fun scan_string :: "str \<Rightarrow> str \<Rightarrow> (str \<times> str) res" where
  "scan_string acc [] = Raise JSONDecodeError"
| "scan_string acc (c # cs) =
     (if c = 34 then Ok (acc, cs)
      else if c = 92 then
        (case cs of
           [] \<Rightarrow> Raise JSONDecodeError
         | e # es \<Rightarrow>
             if e = 117 then
               (case es of
                  h3 # h2 # h1 # h0 # rest \<Rightarrow>
                    (case hex4 h3 h2 h1 h0 of
                       None \<Rightarrow> Raise JSONDecodeError
                     | Some n \<Rightarrow>
                         if is_high n then
                           (case rest of
                              b # u # l3 # l2 # l1 # l0 # rest2 \<Rightarrow>
                                if b = 92 \<and> u = 117 then
                                  (case hex4 l3 l2 l1 l0 of
                                     None \<Rightarrow> Raise JSONDecodeError
                                   | Some n2 \<Rightarrow>
                                       if is_low n2
                                       then scan_string (acc @ [join_surrogates n n2]) rest2
                                       else scan_string (acc @ [n]) rest)
                                else scan_string (acc @ [n]) rest
                            | _ \<Rightarrow> scan_string (acc @ [n]) rest)
                         else scan_string (acc @ [n]) rest)
                | _ \<Rightarrow> Raise JSONDecodeError)
             else
               (case unescape e of
                  None \<Rightarrow> Raise JSONDecodeError
                | Some ch \<Rightarrow> scan_string (acc @ [ch]) es))
      else if c < 32 then Raise JSONDecodeError
      else scan_string (acc @ [c]) cs)"

text \<open>After the digits of an integer: does a fraction or an exponent follow?\<close>

definition float_follows :: "str \<Rightarrow> bool" where
  "float_follows s =
     (case s of
        c # d # ds \<Rightarrow>
          (c = 46 \<and> is_digit d) \<or>
          ((c = 101 \<or> c = 69) \<and>
           (is_digit d \<or> ((d = 43 \<or> d = 45) \<and> (case ds of [] \<Rightarrow> False | x # _ \<Rightarrow> is_digit x))))
      | _ \<Rightarrow> False)"

definition scan_digits :: "bool \<Rightarrow> str \<Rightarrow> (int \<times> str) res" where
  "scan_digits negative s =
     (case s of
        [] \<Rightarrow> Raise JSONDecodeError
      | c # cs \<Rightarrow>
          if \<not> is_digit c then Raise JSONDecodeError
          else
            let ds = (if c = 48 then [c] else c # takeWhile is_digit cs);
                rest = (if c = 48 then cs else dropWhile is_digit cs)
            in if float_follows rest \<or> 4300 < length ds then Unmodelled
               else Ok (if negative then - int (num_of ds) else int (num_of ds), rest))"

definition scan_number :: "str \<Rightarrow> (int \<times> str) res" where
  "scan_number s =
     (case s of
        [] \<Rightarrow> Raise JSONDecodeError
      | c # cs \<Rightarrow> if c = 45 then scan_digits True cs else scan_digits False s)"

definition starts_with :: "str \<Rightarrow> str \<Rightarrow> bool" where
  "starts_with p s = (take (length p) s = p)"

text \<open>\<open>d[k] = v\<close> on a dict.\<close>

fun dict_set :: "str \<Rightarrow> json \<Rightarrow> (str \<times> json) list \<Rightarrow> (str \<times> json) list" where
  "dict_set k v [] = [(k, v)]"
| "dict_set k v (p # ps) = (if fst p = k then (k, v) # ps else p # dict_set k v ps)"

text \<open>
  One value at the head of the text, with the text left. \<open>d\<close> is the depth of
  nesting still allowed. \<open>parse_elements\<close> reads the items of a list from its first
  item on, \<open>parse_members\<close> the entries of a dict from its first key on. Each item and
  each entry uses up text; the tests on the lengths say so for the termination
  proof.
\<close>

function parse_value :: "nat \<Rightarrow> str \<Rightarrow> (json \<times> str) res"
  and parse_elements :: "nat \<Rightarrow> json list \<Rightarrow> str \<Rightarrow> (json \<times> str) res"
  and parse_members :: "nat \<Rightarrow> (str \<times> json) list \<Rightarrow> str \<Rightarrow> (json \<times> str) res" where
  "parse_value d s =
     (case s of
        [] \<Rightarrow> Raise JSONDecodeError
      | c # cs \<Rightarrow>
          if c = 34 then rbind (scan_string [] cs) (\<lambda>r. Ok (JStr (fst r), snd r))
          else if c = 123 then
            (case d of
               0 \<Rightarrow> Unmodelled
             | Suc d' \<Rightarrow>
                 (case skip_ws cs of
                    [] \<Rightarrow> Raise JSONDecodeError
                  | x # xs \<Rightarrow> if x = 125 then Ok (JObj [], xs) else parse_members d' [] (x # xs)))
          else if c = 91 then
            (case d of
               0 \<Rightarrow> Unmodelled
             | Suc d' \<Rightarrow>
                 (case skip_ws cs of
                    [] \<Rightarrow> Raise JSONDecodeError
                  | x # xs \<Rightarrow> if x = 93 then Ok (JArr [], xs) else parse_elements d' [] (x # xs)))
          else if starts_with (lit ''null'') s then Ok (JNull, drop 4 s)
          else if starts_with (lit ''true'') s then Ok (JBool True, drop 4 s)
          else if starts_with (lit ''false'') s then Ok (JBool False, drop 5 s)
          else if starts_with (lit ''NaN'') s \<or> starts_with (lit ''Infinity'') s \<or>
                  starts_with (lit ''-Infinity'') s then Unmodelled
          else rbind (scan_number s) (\<lambda>r. Ok (JInt (fst r), snd r)))"
| "parse_elements d acc s =
     (case parse_value d s of
        Ok (v, rest) \<Rightarrow>
          (case skip_ws rest of
             [] \<Rightarrow> Raise JSONDecodeError
           | x # xs \<Rightarrow>
               if x = 93 then Ok (JArr (acc @ [v]), xs)
               else if x = 44 then
                 (if length (skip_ws xs) < length s then parse_elements d (acc @ [v]) (skip_ws xs)
                  else Raise JSONDecodeError)
               else Raise JSONDecodeError)
      | Raise e \<Rightarrow> Raise e
      | Unmodelled \<Rightarrow> Unmodelled)"
| "parse_members d acc s =
     (case s of
        [] \<Rightarrow> Raise JSONDecodeError
      | c # cs \<Rightarrow>
          if c \<noteq> 34 then Raise JSONDecodeError
          else
            (case scan_string [] cs of
               Ok (k, after_key) \<Rightarrow>
                 (case skip_ws after_key of
                    [] \<Rightarrow> Raise JSONDecodeError
                  | x # xs \<Rightarrow>
                      if x \<noteq> 58 then Raise JSONDecodeError
                      else if \<not> length (skip_ws xs) < length s then Raise JSONDecodeError
                      else
                        (case parse_value d (skip_ws xs) of
                           Ok (v, rest) \<Rightarrow>
                             (case skip_ws rest of
                                [] \<Rightarrow> Raise JSONDecodeError
                              | y # ys \<Rightarrow>
                                  if y = 125 then Ok (JObj (dict_set k v acc), ys)
                                  else if y = 44 then
                                    (if length (skip_ws ys) < length s
                                     then parse_members d (dict_set k v acc) (skip_ws ys)
                                     else Raise JSONDecodeError)
                                  else Raise JSONDecodeError)
                         | Raise e \<Rightarrow> Raise e
                         | Unmodelled \<Rightarrow> Unmodelled))
             | Raise e \<Rightarrow> Raise e
             | Unmodelled \<Rightarrow> Unmodelled))"
  by pat_completeness auto
termination
  by (relation "inv_image (less_than <*lex*> less_than) (\<lambda>x. case x of
         Inl (d, s) \<Rightarrow> (d, 2 * length s)
       | Inr (Inl (d, acc, s)) \<Rightarrow> (d, 2 * length s + 1)
       | Inr (Inr (d, acc, s)) \<Rightarrow> (d, 2 * length s + 1))")
    auto

declare parse_value.simps [simp del] parse_elements.simps [simp del] parse_members.simps [simp del]

definition loads :: "str \<Rightarrow> json res" where
  "loads s =
     (case parse_value 100 (skip_ws s) of
        Ok (v, rest) \<Rightarrow> if skip_ws rest = [] then Ok v else Raise JSONDecodeError
      | Raise e \<Rightarrow> Raise e
      | Unmodelled \<Rightarrow> Unmodelled)"


section \<open>Expressions the scripts share\<close>

text \<open>\<open>f"{d.get(key, default)<format>}"\<close>.\<close>

definition getf :: "json \<Rightarrow> string \<Rightarrow> json \<Rightarrow> (json \<Rightarrow> str res) \<Rightarrow> str res" where
  "getf d key dflt fmt = rbind (dict_get d (lit key) dflt) fmt"

text \<open>\<open>f"{d[key]}"\<close>.\<close>

definition itemf :: "json \<Rightarrow> string \<Rightarrow> str res" where
  "itemf d key = rbind (subscript d (lit key)) py_str"

text \<open>\<open>gr.get('parsed_result', {}).get('documentClassification')\<close> and
  \<open>gr['parsed_result']['documentClassification']\<close>.\<close>

definition classification :: "json \<Rightarrow> json res" where
  "classification gr =
     rbind (dict_get gr (lit ''parsed_result'') (JObj []))
       (\<lambda>pr. dict_get pr (lit ''documentClassification'') JNull)"

definition classification_item :: "json \<Rightarrow> json res" where
  "classification_item gr =
     rbind (subscript gr (lit ''parsed_result''))
       (\<lambda>pr. subscript pr (lit ''documentClassification''))"

text \<open>\<open>doc.get('propertyData') and doc['propertyData'].get('rawExtractedData')\<close>,
  as a condition.\<close>

definition has_raw_data :: "json \<Rightarrow> bool res" where
  "has_raw_data doc =
     rbind (dict_get doc (lit ''propertyData'') JNull) (\<lambda>pd.
       if \<not> truthy pd then Ok False
       else rbind (subscript doc (lit ''propertyData'')) (\<lambda>pd'.
              rbind (dict_get pd' (lit ''rawExtractedData'') JNull) (\<lambda>rd. Ok (truthy rd))))"

text \<open>\<open>doc['propertyData']['rawExtractedData']\<close>.\<close>

definition raw_data_item :: "json \<Rightarrow> json res" where
  "raw_data_item doc =
     rbind (subscript doc (lit ''propertyData''))
       (\<lambda>pd. subscript pd (lit ''rawExtractedData''))"

text \<open>\<open>f"grok_response_{doc['id'][:8]}.json"\<close>.\<close>

definition response_filename :: "json \<Rightarrow> str res" where
  "response_filename doc =
     fstring [Ok (lit ''grok_response_''),
              rbind (rbind (subscript doc (lit ''id'')) (slice_to 8)) py_str,
              Ok (lit ''.json'')]"

definition documents_url :: str where
  "documents_url = lit ''http://localhost:5000/api/documents''"

text \<open>\<open>f"http://localhost:5000/api/documents/{doc_id}/grok-response"\<close>;
  \<open>detail_url i\<close> is that address for the id \<open>i\<close>.\<close>

definition detail_url :: "str \<Rightarrow> str" where
  "detail_url i = lit ''http://localhost:5000/api/documents/'' @ i @ lit ''/grok-response''"

definition grok_response_url :: "json \<Rightarrow> str res" where
  "grok_response_url doc_id =
     fstring [Ok (lit ''http://localhost:5000/api/documents/''), py_str doc_id,
              Ok (lit ''/grok-response'')]"

section \<open>\<open>quick_grok_access.py\<close>\<close>

text \<open>What is printed for a response record \<open>gr\<close>: the metrics (lines 32 to 35),
  the excerpt (lines 38 to 41) and the classification (lines 44 to 48).\<close>

definition quick_metrics :: "json \<Rightarrow> unit io" where
  "quick_metrics gr = block
     [emit (Line (lit ''   '' @ [9989] @ lit '' Full Grok Response Available!'')),
      print (fstring [Ok (lit ''   Model: ''), getf gr ''model'' (JStr (lit ''Unknown'')) py_str]),
      print (fstring [Ok (lit ''   Tokens: ''), getf gr ''total_tokens'' (JInt 0) fmt_comma]),
      print (fstring [Ok (lit ''   Processing Time: ''),
                      getf gr ''response_time_ms'' (JInt 0) fmt_secs, Ok (lit ''s'')])]"

definition quick_excerpt :: "json \<Rightarrow> unit io" where
  "quick_excerpt gr =
     let_val (dict_get gr (lit ''full_response_content'') (JStr [])) (\<lambda>raw.
       if truthy raw then block
         [emit (Line ([10] @ lit ''   '' @ [128269] @ lit '' RAW GROK RESPONSE (first 300 chars):'')),
          print (fstring [Ok (lit ''   ''), rbind (slice_to 300 raw) py_str, Ok (lit ''...'')])]
       else ret ())"

definition quick_classification :: "json \<Rightarrow> unit io" where
  "quick_classification gr =
     let_val (classification gr) (\<lambda>c.
       if truthy c then
         let_val (classification_item gr) (\<lambda>dc. block
           [emit (Line ([10] @ lit ''   '' @ [128203] @ lit '' Document Classification:'')),
            print (fstring [Ok (lit ''   Type: ''), getf dc ''documentType'' (JStr (lit ''N/A'')) py_str]),
            print (fstring [Ok (lit ''   Subtype: ''),
                            getf dc ''documentSubtype'' (JStr (lit ''N/A'')) py_str])])
       else ret ())"

definition quick_render :: "json \<Rightarrow> unit io" where
  "quick_render gr = block [quick_metrics gr, quick_excerpt gr, quick_classification gr]"

text \<open>Lines 20 to 56: the body of the loop, for one document.\<close>

definition quick_doc :: "env \<Rightarrow> json \<Rightarrow> unit io" where
  "quick_doc E doc = block
     [print (fstring [Ok ([10, 128196] @ lit '' Document: ''), itemf doc ''originalName'']),
      print (fstring [Ok (lit ''   Status: ''), itemf doc ''status'']),
      let_val (subscript doc (lit ''status'')) (\<lambda>status.
        if status = JStr (lit ''completed'') then
          try_except
            (let_val (rbind (subscript doc (lit ''id'')) grok_response_url) (\<lambda>url.
             bind (requests_get E url) (\<lambda>grok_resp.
               if status_code grok_resp = 200 then
                 let_val (body grok_resp) (\<lambda>data.
                 let_val (subscript data (lit ''fullGrokResponse'')) quick_render)
               else
                 print (fstring [Ok (lit ''   '' @ [10060] @ lit '' No Grok response: ''),
                                 int_text (status_code grok_resp)]))))
            is_Exception
            (\<lambda>e. emit (Report (lit ''   '' @ [10060] @ lit '' Error accessing Grok response: '') e))
        else emit (Line (lit ''   '' @ [9203] @ lit '' Document not yet processed'')))]"

definition show_grok_responses :: "env \<Rightarrow> unit io" where
  "show_grok_responses E =
     try_except
       (bind (requests_get E documents_url) (\<lambda>resp.
        let_val (body resp) (\<lambda>docs.
          if \<not> truthy docs then say ''No documents found. Upload a PDF first.''
          else block
            [print (fstring [Ok (lit ''Found ''), rbind (py_len docs) (\<lambda>n. Ok (digits n)),
                             Ok (lit '' document(s)'')]),
             let_val (py_iter docs) (\<lambda>ds. for_each ds (quick_doc E))])))
       is_Exception
       (\<lambda>e. emit (Report (lit ''Error: '') e))"

section \<open>\<open>show_all_grok_responses.py\<close>\<close>

text \<open>Lines 25 to 28: the entry of document number \<open>i\<close>.\<close>

definition show_all_entry :: "nat \<Rightarrow> json \<Rightarrow> unit io" where
  "show_all_entry i doc = block
     [print (fstring [Ok ([10] @ digits i @ lit ''. Document: ''), itemf doc ''originalName'']),
      print (fstring [Ok (lit ''   ID: ''), itemf doc ''id'']),
      print (fstring [Ok (lit ''   Status: ''), itemf doc ''status'']),
      print (fstring [Ok (lit ''   Uploaded: ''), itemf doc ''uploadedAt''])]"

text \<open>What is printed and saved for the record \<open>gr\<close> of \<open>doc\<close>: the metrics
  (lines 37 to 40), the classification (lines 43 to 46), the sample of the content
  (lines 51 and 52) and the file (lines 55 to 58).\<close>

definition show_all_metrics :: "json \<Rightarrow> unit io" where
  "show_all_metrics gr = block
     [emit (Line (lit ''   '' @ [9989] @ lit '' FULL GROK RESPONSE AVAILABLE'')),
      print (fstring [Ok (lit ''   Model: ''), getf gr ''model'' (JStr (lit ''Unknown'')) py_str]),
      print (fstring [Ok (lit ''   Tokens: ''), getf gr ''total_tokens'' (JInt 0) fmt_comma]),
      print (fstring [Ok (lit ''   Time: ''),
                      getf gr ''response_time_ms'' (JInt 0) fmt_secs, Ok (lit ''s'')])]"

definition show_all_classification :: "json \<Rightarrow> unit io" where
  "show_all_classification gr =
     let_val (classification gr) (\<lambda>c.
       if truthy c then
         let_val (classification_item gr) (\<lambda>dc. block
           [print (fstring [Ok (lit ''   Type: ''), getf dc ''documentType'' (JStr (lit ''N/A'')) py_str]),
            print (fstring [Ok (lit ''   Subtype: ''),
                            getf dc ''documentSubtype'' (JStr (lit ''N/A'')) py_str])])
       else ret ())"

definition show_all_sample :: "json \<Rightarrow> unit io" where
  "show_all_sample raw_content = block
     [print (fstring [Ok (lit ''   Raw response: ''),
                      rbind (py_len raw_content) (\<lambda>n. Ok (commas (int n))),
                      Ok (lit '' chars'')]),
      print (fstring [Ok (lit ''   Sample: ''), rbind (slice_to 100 raw_content) py_str,
                      Ok (lit ''...'')])]"

definition show_all_save :: "env \<Rightarrow> json \<Rightarrow> json \<Rightarrow> unit io" where
  "show_all_save E doc gr =
     let_val (response_filename doc) (\<lambda>filename. block
       [write_json E filename gr,
        emit (Line (lit ''   Saved to: '' @ filename))])"

definition show_all_render :: "env \<Rightarrow> json \<Rightarrow> json \<Rightarrow> unit io" where
  "show_all_render E doc gr = block
     [show_all_metrics gr,
      show_all_classification gr,
      let_val (dict_get gr (lit ''full_response_content'') (JStr [])) (\<lambda>raw_content.
        if truthy raw_content then block [show_all_sample raw_content, show_all_save E doc gr]
        else ret ())]"

text \<open>Lines 25 to 63: the body of the loop. It takes and returns \<open>grok_count\<close>.\<close>

definition show_all_doc :: "env \<Rightarrow> nat \<Rightarrow> nat \<times> json \<Rightarrow> nat io" where
  "show_all_doc E grok_count idoc =
     (case idoc of (i, doc) \<Rightarrow>
        bind (show_all_entry i doc) (\<lambda>_.
        let_val (has_raw_data doc) (\<lambda>has.
          if has then
            let_val (raw_data_item doc) (\<lambda>raw_data.
            let_val (dict_get raw_data (lit ''fullGrokResponse'') JNull) (\<lambda>g.
              if truthy g then
                let_val (subscript raw_data (lit ''fullGrokResponse'')) (\<lambda>gr.
                bind (show_all_render E doc gr) (\<lambda>_. ret (Suc grok_count)))
              else
                bind (emit (Line (lit ''   '' @ [10060] @ lit '' No Grok response'')))
                  (\<lambda>_. ret grok_count)))
          else
            bind (emit (Line (lit ''   '' @ [10060] @ lit '' No processed data'')))
              (\<lambda>_. ret grok_count))))"

text \<open>A loop that updates a local variable: the body takes and returns it.\<close>

fun for_acc :: "'a list \<Rightarrow> ('b \<Rightarrow> 'a \<Rightarrow> 'b io) \<Rightarrow> 'b \<Rightarrow> 'b io" where
  "for_acc [] f c = ret c"
| "for_acc (x # xs) f c = bind (f c x) (for_acc xs f)"

definition show_all_grok_responses :: "env \<Rightarrow> unit io" where
  "show_all_grok_responses E =
     try_except
       (bind (curl_json E documents_url) (\<lambda>documents.
          if \<not> truthy documents then say ''No documents found''
          else
            bind (block
              [print (fstring [Ok (lit ''Found ''), rbind (py_len documents) (\<lambda>n. Ok (digits n)),
                               Ok (lit '' document(s)'')]),
               emit (Line (replicate 60 61))]) (\<lambda>_.
            let_val (py_iter documents) (\<lambda>ds.
            bind (for_acc (enumerate 1 ds) (show_all_doc E) 0) (\<lambda>grok_count. block
              [emit (Line ([10] @ replicate 60 61)),
               emit (Line (lit ''SUMMARY: '' @ digits grok_count @
                           lit '' document(s) with full Grok responses available'')),
               if 0 < grok_count then block
                 [emit (Line ([10] @ lit ''You can now:'')),
                  say ''1. Read the JSON files saved above for complete responses'',
                  say ''2. Use this script anytime to check all documents'',
                  say ''3. Access raw response content for analysis'']
               else
                 emit (Line ([10] @
                   lit ''No Grok responses found. Upload and process documents first.''))])))))
       is_Exception
       (\<lambda>e. block [emit (Report (lit ''Error: '') e), emit (Traceback e)])"

section \<open>\<open>test_grok_access.py\<close>\<close>

text \<open>\<open>documents[0]\<close>.\<close>

fun index0 :: "json \<Rightarrow> json res" where
  "index0 (JArr xs) = (case xs of [] \<Rightarrow> Raise IndexError | x # _ \<Rightarrow> Ok x)"
| "index0 (JStr s) = (case s of [] \<Rightarrow> Raise IndexError | c # _ \<Rightarrow> Ok (JStr [c]))"
| "index0 (JObj kvs) = Raise KeyError"
| "index0 _ = Raise TypeError"

text \<open>What is printed and saved for the record \<open>gr\<close>: the metrics (lines 29 to
  34), the content (lines 37 to 42), the classification (lines 45 to 49) and the file
  (lines 51 to 56).\<close>

definition test_metrics :: "json \<Rightarrow> unit io" where
  "test_metrics gr = block
     [emit (Line ([10, 9989] @ lit '' FULL GROK RESPONSE FOUND!'')),
      emit (Line (replicate 50 61)),
      print (fstring [Ok (lit ''Model: ''), getf gr ''model'' (JStr (lit ''Unknown'')) py_str]),
      print (fstring [Ok (lit ''Total Tokens: ''), getf gr ''total_tokens'' (JInt 0) fmt_comma]),
      print (fstring [Ok (lit ''Processing Time: ''),
                      getf gr ''response_time_ms'' (JInt 0) fmt_secs, Ok (lit ''s'')]),
      print (fstring [Ok (lit ''Timestamp: ''), getf gr ''timestamp'' (JStr (lit ''N/A'')) py_str])]"

definition test_content :: "json \<Rightarrow> unit io" where
  "test_content gr =
     let_val (dict_get gr (lit ''full_response_content'') (JStr [])) (\<lambda>raw_content. block
       [print (fstring [Ok ([10, 128196] @ lit '' Raw Response Length: ''),
                        rbind (py_len raw_content) (\<lambda>n. Ok (commas (int n))),
                        Ok (lit '' characters'')]),
        say ''First 500 characters:'',
        emit (Line (replicate 50 45)),
        print (rbind (slice_to 500 raw_content) py_str),
        emit (Line (replicate 50 45))])"

definition test_classification :: "json \<Rightarrow> unit io" where
  "test_classification gr =
     let_val (classification gr) (\<lambda>c.
       if truthy c then
         let_val (classification_item gr) (\<lambda>dc. block
           [emit (Line ([10, 128203] @ lit '' Document Classification:'')),
            print (fstring [Ok (lit ''Type: ''), getf dc ''documentType'' (JStr (lit ''N/A'')) py_str]),
            print (fstring [Ok (lit ''Subtype: ''),
                            getf dc ''documentSubtype'' (JStr (lit ''N/A'')) py_str])])
       else ret ())"

definition test_save :: "env \<Rightarrow> json \<Rightarrow> unit io" where
  "test_save E gr = block
     [emit (Line ([10, 127919] @ lit '' SUCCESS: Full Grok response is accessible!'')),
      write_json E (lit ''latest_grok_response.json'') gr,
      emit (Line (lit ''Saved full response to '' @ [39] @ lit ''latest_grok_response.json'' @ [39]))]"

definition test_render :: "env \<Rightarrow> json \<Rightarrow> unit io" where
  "test_render E gr = block
     [test_metrics gr, test_content gr, test_classification gr, test_save E gr]"

text \<open>Lines 20 to 22, and lines 20 to 62: what is done with the first document.\<close>

definition test_entry :: "json \<Rightarrow> unit io" where
  "test_entry doc = block
     [print (fstring [Ok (lit ''Document: ''), itemf doc ''originalName'']),
      print (fstring [Ok (lit ''Status: ''), itemf doc ''status'']),
      print (fstring [Ok (lit ''ID: ''), itemf doc ''id''])]"

definition test_doc :: "env \<Rightarrow> json \<Rightarrow> unit io" where
  "test_doc E doc =
     bind (test_entry doc) (\<lambda>_.
     let_val (has_raw_data doc) (\<lambda>has.
       if has then
         let_val (raw_data_item doc) (\<lambda>raw_data.
         let_val (dict_get raw_data (lit ''fullGrokResponse'') JNull) (\<lambda>g.
           if truthy g then
             let_val (subscript raw_data (lit ''fullGrokResponse'')) (test_render E)
           else block
             [emit (Line ([10060] @ lit '' No fullGrokResponse found in raw data'')),
              let_val (py_iter raw_data) (\<lambda>keys.
                emit (Print_repr (lit ''Available keys:'') (JArr keys)))]))
       else
         emit (Line ([10060] @ lit '' No property data or raw extracted data found''))))"

text \<open>The function \<open>get_grok_response\<close> of \<open>test_grok_access.py\<close> (the viewer
  has a function of the same name, below).\<close>

definition get_grok_response_test :: "env \<Rightarrow> unit io" where
  "get_grok_response_test E =
     try_except
       (bind (curl_json E documents_url) (\<lambda>documents.
          if \<not> truthy documents then say ''No documents found''
          else let_val (index0 documents) (test_doc E)))
       is_Exception
       (\<lambda>e. block [emit (Report (lit ''Error: '') e), emit (Traceback e)])"

section \<open>\<open>view_grok_responses.py\<close>\<close>

text \<open>\<open>response.raise_for_status()\<close>: an error status raises.\<close>

definition raise_for_status :: "response \<Rightarrow> unit res" where
  "raise_for_status r =
     (if 400 \<le> status_code r \<and> status_code r < 600 then Raise RequestException else Ok ())"

definition get_documents :: "env \<Rightarrow> json io" where
  "get_documents E =
     try_except
       (bind (requests_get E documents_url) (\<lambda>response.
        let_val (raise_for_status response) (\<lambda>_.
        let_val (body response) ret)))
       is_Exception
       (\<lambda>e. bind (emit (Report (lit ''Error fetching documents: '') e)) (\<lambda>_. ret (JArr [])))"

definition get_grok_response :: "env \<Rightarrow> json \<Rightarrow> json io" where
  "get_grok_response E doc_id =
     try_except
       (let_val (grok_response_url doc_id) (\<lambda>url.
        bind (requests_get E url) (\<lambda>response.
        let_val (raise_for_status response) (\<lambda>_.
        let_val (body response) ret))))
       is_Exception
       (\<lambda>e. bind (emit (Report (lit ''Error fetching Grok response: '') e)) (\<lambda>_. ret JNull))"

text \<open>
  \<open>datetime.fromisoformat(x.replace('Z', '+00:00')).strftime('%Y-%m-%d %H:%M:%S')\<close>.
  A value that is not a \<open>str\<close> has no \<open>replace\<close>. For a \<open>str\<close> the model covers
  the form a JavaScript server sends, \<open>YYYY-MM-DDTHH:MM:SS.mmmZ\<close> with a date and a
  time that exist and a year of four digits: the text printed is the date, a space
  and the time without the milliseconds. What \<open>fromisoformat\<close> does with any other
  text depends on the Python version and is not modelled.
\<close>

definition days_in_month :: "nat \<Rightarrow> nat \<Rightarrow> nat" where
  "days_in_month y m =
     (if m = 2 then (if y mod 4 = 0 \<and> (y mod 100 \<noteq> 0 \<or> y mod 400 = 0) then 29 else 28)
      else if m = 4 \<or> m = 6 \<or> m = 9 \<or> m = 11 then 30 else 31)"

definition iso_utc :: "str \<Rightarrow> bool" where
  "iso_utc s =
     (length s = 24 \<and>
      list_all is_digit (take 4 s) \<and> s ! 4 = 45 \<and>
      list_all is_digit (take 2 (drop 5 s)) \<and> s ! 7 = 45 \<and>
      list_all is_digit (take 2 (drop 8 s)) \<and> s ! 10 = 84 \<and>
      list_all is_digit (take 2 (drop 11 s)) \<and> s ! 13 = 58 \<and>
      list_all is_digit (take 2 (drop 14 s)) \<and> s ! 16 = 58 \<and>
      list_all is_digit (take 2 (drop 17 s)) \<and> s ! 19 = 46 \<and>
      list_all is_digit (take 3 (drop 20 s)) \<and> s ! 23 = 90 \<and>
      1000 \<le> num_of (take 4 s) \<and>
      1 \<le> num_of (take 2 (drop 5 s)) \<and> num_of (take 2 (drop 5 s)) \<le> 12 \<and>
      1 \<le> num_of (take 2 (drop 8 s)) \<and>
      num_of (take 2 (drop 8 s)) \<le> days_in_month (num_of (take 4 s)) (num_of (take 2 (drop 5 s))) \<and>
      num_of (take 2 (drop 11 s)) \<le> 23 \<and>
      num_of (take 2 (drop 14 s)) \<le> 59 \<and>
      num_of (take 2 (drop 17 s)) \<le> 59)"

fun uploaded_fmt :: "json \<Rightarrow> str res" where
  "uploaded_fmt (JStr s) =
     (if iso_utc s then Ok (take 10 s @ lit '' '' @ take 8 (drop 11 s)) else Unmodelled)"
| "uploaded_fmt _ = Raise AttributeError"

text \<open>\<open>doc.get('propertyData', {}).get('fullGrokResponse') is not None\<close>.\<close>

definition has_grok :: "json \<Rightarrow> bool res" where
  "has_grok doc =
     rbind (dict_get doc (lit ''propertyData'') (JObj [])) (\<lambda>pd.
     rbind (dict_get pd (lit ''fullGrokResponse'') JNull) (\<lambda>g. Ok (g \<noteq> JNull)))"

text \<open>Lines 53 to 56: the entry of a listed document; \<open>n\<close> is
  \<open>len(grok_docs)\<close> after the document was appended.\<close>

definition list_entry :: "nat \<Rightarrow> json \<Rightarrow> unit io" where
  "list_entry n doc = block
     [print (fstring [Ok (digits n @ lit ''. ''), itemf doc ''originalName'']),
      print (fstring [Ok (lit ''   Status: ''), itemf doc ''status'']),
      print (fstring [Ok (lit ''   Uploaded: ''),
                      rbind (subscript doc (lit ''uploadedAt'')) uploaded_fmt]),
      emit (Line [])]"

text \<open>The body of the loop of \<open>display_document_list\<close>; it takes and returns
  \<open>grok_docs\<close>.\<close>

definition list_doc :: "json list \<Rightarrow> json \<Rightarrow> json list io" where
  "list_doc grok_docs doc =
     let_val (has_grok doc) (\<lambda>has.
       if has then
         bind (list_entry (Suc (length grok_docs)) doc) (\<lambda>_. ret (grok_docs @ [doc]))
       else ret grok_docs)"

definition display_document_list :: "json \<Rightarrow> json list io" where
  "display_document_list documents =
     bind (block
       [emit (Line (replicate 80 61)),
        say ''AVAILABLE DOCUMENTS WITH GROK RESPONSES'',
        emit (Line (replicate 80 61))]) (\<lambda>_.
     let_val (py_iter documents) (\<lambda>ds.
     bind (for_acc ds list_doc []) (\<lambda>grok_docs.
       if grok_docs = [] then
         bind (block
           [say ''No documents with Grok responses found.'',
            say ''Upload a PDF document to generate Grok analysis data.'']) (\<lambda>_. ret [])
       else ret grok_docs)))"

text \<open>
  \<open>display_grok_response\<close>, in three parts: the metrics (lines 75 to 83), the
  classification (lines 86 to 91) and the raw content (lines 94 to 112).

  \<open>json.loads\<close> and \<open>json.dumps(_, indent=2)\<close> are the parameters \<open>decode\<close> and
  \<open>encode\<close> here, so that the content may be any text (numbers with a fraction
  included): \<open>decode\<close> gives the decoded value or the exception raised, \<open>encode\<close>
  the text of a decoded value.
\<close>

definition display_metrics :: "json \<Rightarrow> unit io" where
  "display_metrics gr = block
     [emit (Line ([128202] @ lit '' PROCESSING METRICS:'')),
      print (fstring [Ok (lit ''   Model: ''), getf gr ''model'' (JStr (lit ''Unknown'')) py_str]),
      print (fstring [Ok (lit ''   Prompt Tokens: ''), getf gr ''prompt_tokens'' JNull format_tokens]),
      print (fstring [Ok (lit ''   Completion Tokens: ''),
                      getf gr ''completion_tokens'' JNull format_tokens]),
      print (fstring [Ok (lit ''   Total Tokens: ''), getf gr ''total_tokens'' JNull format_tokens]),
      print (fstring [Ok (lit ''   Processing Time: ''),
                      getf gr ''response_time_ms'' JNull format_time]),
      print (fstring [Ok (lit ''   Response Size: ''),
                      rbind (rbind (dict_get gr (lit ''full_response_content'') (JStr [])) py_len)
                        (\<lambda>n. Ok (commas (int n))),
                      Ok (lit '' characters'')]),
      print (fstring [Ok (lit ''   Timestamp: ''), getf gr ''timestamp'' (JStr (lit ''N/A'')) py_str]),
      emit (Line [])]"

definition display_classification :: "json \<Rightarrow> unit io" where
  "display_classification gr =
     let_val (classification gr) (\<lambda>c.
       if truthy c then
         let_val (classification_item gr) (\<lambda>dc. block
           [emit (Line ([128203] @ lit '' DOCUMENT CLASSIFICATION:'')),
            print (fstring [Ok (lit ''   Type: ''), getf dc ''documentType'' (JStr (lit ''N/A'')) py_str]),
            print (fstring [Ok (lit ''   Subtype: ''),
                            getf dc ''documentSubtype'' (JStr (lit ''N/A'')) py_str]),
            emit (Line [])])
       else ret ())"

text \<open>\<open>json.loads(x)\<close>: only text can be decoded.\<close>

fun loads_value :: "(str \<Rightarrow> 'j res) \<Rightarrow> json \<Rightarrow> 'j res" where
  "loads_value decode (JStr s) = decode s"
| "loads_value decode _ = Raise TypeError"

text \<open>Lines 102 and 103 (and 107 and 108).\<close>

definition truncation_notice :: "json \<Rightarrow> unit io" where
  "truncation_notice raw_content =
     let_val (py_len raw_content) (\<lambda>n.
       if 2000 < n then
         emit (Line ([10] @ lit ''... (truncated, full content is '' @ commas (int n) @ lit '' chars)''))
       else ret ())"

definition display_content :: "(str \<Rightarrow> 'j res) \<Rightarrow> ('j \<Rightarrow> str res) \<Rightarrow> json \<Rightarrow> unit io" where
  "display_content decode encode gr = block
     [emit (Line ([128196] @ lit '' RAW GROK RESPONSE CONTENT:'')),
      emit (Line (replicate 80 45)),
      let_val (dict_get gr (lit ''full_response_content'') (JStr [])) (\<lambda>raw_content.
        if truthy raw_content then
          try_except
            (let_val (loads_value decode raw_content) (\<lambda>parsed. block
               [print (rbind (encode parsed) (\<lambda>t. Ok (take 2000 t))),
                truncation_notice raw_content]))
            (\<lambda>e. True)
            (\<lambda>e. block
               [print (rbind (slice_to 2000 raw_content) py_str),
                truncation_notice raw_content])
        else say ''No raw content available''),
      emit (Line (replicate 80 45)),
      emit (Line [])]"

definition display_grok_response ::
    "(str \<Rightarrow> 'j res) \<Rightarrow> ('j \<Rightarrow> str res) \<Rightarrow> json \<Rightarrow> unit io" where
  "display_grok_response decode encode grok_data =
     let_val (subscript grok_data (lit ''document'')) (\<lambda>doc.
     let_val (subscript grok_data (lit ''fullGrokResponse'')) (\<lambda>gr. block
       [emit (Line (replicate 80 61)),
        print (fstring [Ok (lit ''FULL GROK RESPONSE: ''), itemf doc ''originalName'']),
        emit (Line (replicate 80 61)),
        display_metrics gr,
        display_classification gr,
        display_content decode encode gr]))"

subsection \<open>The interactive loop\<close>

text \<open>
  What reaches \<open>input()\<close>: a typed line, a line of bytes that are not UTF-8
  (\<open>UnicodeDecodeError\<close>), or an interrupt (Ctrl-C). When the list is used up the
  standard input is at its end, and \<open>input()\<close> raises \<open>EOFError\<close>.
\<close>

datatype key_event = Typed str | Garbled | Ctrl_C

definition py_input :: "str \<Rightarrow> key_event list \<Rightarrow> (str \<times> key_event list) io" where
  "py_input prompt evs =
     bind (emit (Prompt prompt)) (\<lambda>_.
       case evs of
         [] \<Rightarrow> let_val (Raise EOFError) ret
       | Ctrl_C # rest \<Rightarrow> let_val (Raise KeyboardInterrupt) ret
       | Garbled # rest \<Rightarrow> let_val (Raise UnicodeDecodeError) ret
       | Typed line # rest \<Rightarrow> ret (line, rest))"

text \<open>\<open>s.strip()\<close> removes the white space of Unicode at both ends.\<close>

definition is_space :: "nat \<Rightarrow> bool" where
  "is_space c =
     ((9 \<le> c \<and> c \<le> 13) \<or> (28 \<le> c \<and> c \<le> 32) \<or> c = 133 \<or> c = 160 \<or> c = 5760 \<or>
      (8192 \<le> c \<and> c \<le> 8202) \<or> c = 8232 \<or> c = 8233 \<or> c = 8239 \<or> c = 8287 \<or> c = 12288)"

definition strip :: "str \<Rightarrow> str" where
  "strip s = rev (dropWhile is_space (rev (dropWhile is_space s)))"

text \<open>\<open>s.lower() == c\<close> for a lower-case ASCII letter \<open>c\<close> (\<open>'q'\<close>, \<open>'y'\<close>): the
  letter and its capital are the only texts that \<open>lower\<close> maps to it.\<close>

definition lower_is :: "str \<Rightarrow> nat \<Rightarrow> bool" where
  "lower_is s c = (s = [c] \<or> s = [c - 32])"

text \<open>
  \<open>int(s)\<close>: white space at both ends is dropped; then come an optional sign and
  decimal digits, with single underscores allowed between digits; anything else is a
  \<open>ValueError\<close>. Python also reads the decimal digits of other scripts and limits
  the number of digits (4300 by default, depending on the version): a text with a
  character outside ASCII or longer than that is not modelled.
\<close>

fun int_body :: "nat \<Rightarrow> str \<Rightarrow> nat option" where
  "int_body acc [] = Some acc"
| "int_body acc [c] = (if is_digit c then Some (10 * acc + (c - 48)) else None)"
| "int_body acc (c # d # ds) =
     (if is_digit c then int_body (10 * acc + (c - 48)) (d # ds)
      else if c = 95 \<and> is_digit d then int_body (10 * acc + (d - 48)) ds
      else None)"

definition int_digits :: "str \<Rightarrow> nat option" where
  "int_digits s =
     (case s of [] \<Rightarrow> None | c # cs \<Rightarrow> if is_digit c then int_body (c - 48) cs else None)"

definition int_signed :: "str \<Rightarrow> int option" where
  "int_signed s =
     (case s of
        [] \<Rightarrow> None
      | c # cs \<Rightarrow>
          if c = 43 then map_option int (int_digits cs)
          else if c = 45 then map_option (\<lambda>n. - int n) (int_digits cs)
          else map_option int (int_digits s))"

definition py_int :: "str \<Rightarrow> int res" where
  "py_int s =
     (let t = strip s
      in if list_ex (\<lambda>c. 128 \<le> c) t \<or> 4300 < length t then Unmodelled
         else case int_signed t of None \<Rightarrow> Raise ValueError | Some n \<Rightarrow> Ok n)"

text \<open>
  One pass through the body of \<open>while True:\<close> (lines 131 to 157), with its
  \<open>try\<close> and \<open>except (ValueError, KeyboardInterrupt): break\<close>. It says whether
  the loop goes on, and with which input left. \<open>selection\<close> is what the body does
  with the line typed at the first prompt (lines 133 to 155).
\<close>

datatype next_step = Again "key_event list" | Break

definition select_prompt :: "json list \<Rightarrow> str" where
  "select_prompt grok_docs =
     [10] @ lit ''Select document (1-'' @ digits (length grok_docs) @ lit '') or '' @ [39] @
     lit ''q'' @ [39] @ lit '' to quit: ''"

definition save_prompt :: str where
  "save_prompt = [10] @ lit ''Save full response to file? (y/n): ''"

definition selection ::
    "env \<Rightarrow> (str \<Rightarrow> 'j res) \<Rightarrow> ('j \<Rightarrow> str res) \<Rightarrow> json list \<Rightarrow> str \<Rightarrow> key_event list \<Rightarrow>
     next_step io" where
  "selection E decode encode grok_docs line evs1 =
     (let choice = strip line in
      if lower_is choice 113 then ret Break
      else
        let_val (py_int choice) (\<lambda>doc_num.
          if 1 \<le> doc_num \<and> doc_num \<le> int (length grok_docs) then
            let selected_doc = grok_docs ! nat (doc_num - 1) in
            let_val (subscript selected_doc (lit ''id'')) (\<lambda>doc_id.
            bind (get_grok_response E doc_id) (\<lambda>grok_data.
              if truthy grok_data then
                bind (display_grok_response decode encode grok_data) (\<lambda>_.
                bind (py_input save_prompt evs1) (\<lambda>inp2.
                  case inp2 of (answer, evs2) \<Rightarrow>
                    if lower_is (strip answer) 121 then
                      let_val (response_filename selected_doc) (\<lambda>filename.
                      bind (write_json E filename grok_data) (\<lambda>_.
                      bind (print (fstring [Ok (lit ''Saved to ''), Ok filename])) (\<lambda>_.
                      ret (Again evs2))))
                    else ret (Again evs2)))
              else
                bind (say ''Failed to retrieve Grok response.'') (\<lambda>_. ret (Again evs1))))
          else
            bind (say ''Invalid selection.'') (\<lambda>_. ret (Again evs1))))"

definition main_iteration ::
    "env \<Rightarrow> (str \<Rightarrow> 'j res) \<Rightarrow> ('j \<Rightarrow> str res) \<Rightarrow> json list \<Rightarrow> key_event list \<Rightarrow> next_step io" where
  "main_iteration E decode encode grok_docs evs =
     try_except
       (bind (py_input (select_prompt grok_docs) evs) (\<lambda>inp.
          case inp of (line, evs1) \<Rightarrow> selection E decode encode grok_docs line evs1))
       (\<lambda>e. is_ValueError e \<or> e = KeyboardInterrupt)
       (\<lambda>e. ret Break)"

text \<open>Each pass that goes on has used up input, so the loop ends when the input does.\<close>

lemma bind_OkD:
  "bind m f w = (Ok y, w') \<Longrightarrow> \<exists>x w1. m w = (Ok x, w1) \<and> f x w1 = (Ok y, w')"
  by (cases "m w") (auto simp: bind_def split: res.splits)

lemma let_val_OkD: "let_val r f w = (Ok y, w') \<Longrightarrow> \<exists>x. r = Ok x \<and> f x w = (Ok y, w')"
  by (cases r) (simp_all add: let_val_def)

lemma py_input_OkD: "py_input p evs w = (Ok (line, rest), w') \<Longrightarrow> evs = Typed line # rest"
  by (auto simp: py_input_def let_val_def ret_def dest!: bind_OkD
      split: list.splits key_event.splits)

lemma selection_consumes:
  "selection E l d g line evs1 w = (Ok (Again evs'), w') \<Longrightarrow> length evs' \<le> length evs1"
  by (auto simp: selection_def Let_def ret_def dest!: bind_OkD let_val_OkD py_input_OkD
      split: if_splits)

lemma main_iteration_consumes:
  assumes "main_iteration E l d g evs w = (Ok (Again evs'), w')"
  shows "length evs' < length evs"
proof -
  let ?body = "bind (py_input (select_prompt g) evs) (\<lambda>inp.
          case inp of (line, evs1) \<Rightarrow> selection E l d g line evs1)"
  have "?body w = (Ok (Again evs'), w')"
    using assms unfolding main_iteration_def try_except_def
    by (cases "?body w") (auto simp: ret_def split: res.splits if_splits)
  then obtain line evs1 w1 where "py_input (select_prompt g) evs w = (Ok (line, evs1), w1)"
    and "selection E l d g line evs1 w1 = (Ok (Again evs'), w')"
    by (auto dest!: bind_OkD)
  then show ?thesis
    by (auto dest!: py_input_OkD selection_consumes)
qed

function main_loop ::
    "env \<Rightarrow> (str \<Rightarrow> 'j res) \<Rightarrow> ('j \<Rightarrow> str res) \<Rightarrow> json list \<Rightarrow> key_event list \<Rightarrow> unit io" where
  "main_loop E decode encode grok_docs evs w =
     (case main_iteration E decode encode grok_docs evs w of
        (Ok (Again evs'), w') \<Rightarrow> main_loop E decode encode grok_docs evs' w'
      | (Ok Break, w') \<Rightarrow> (Ok (), w')
      | (Raise e, w') \<Rightarrow> (Raise e, w')
      | (Unmodelled, w') \<Rightarrow> (Unmodelled, w'))"
  by pat_completeness auto
termination
  by (relation "measure (\<lambda>(E, l, d, g, evs, w). length evs)")
     (auto dest: main_iteration_consumes [OF sym])

declare main_loop.simps [simp del]

definition main ::
    "env \<Rightarrow> (str \<Rightarrow> 'j res) \<Rightarrow> ('j \<Rightarrow> str res) \<Rightarrow> key_event list \<Rightarrow> unit io" where
  "main E decode encode evs =
     bind (block
       [say ''Real Estate Document Analyzer - Grok Response Viewer'',
        emit (Line (replicate 60 61))]) (\<lambda>_.
     bind (get_documents E) (\<lambda>documents.
       if \<not> truthy documents then say ''No documents found.''
       else
         bind (display_document_list documents) (\<lambda>grok_docs.
           if grok_docs = [] then ret ()
           else
             bind (main_loop E decode encode grok_docs evs) (\<lambda>_.
               emit (Line ([10] @ lit ''Goodbye!''))))))"

section \<open>Inputs used in the examples\<close>

definition world0 :: world where
  "world0 = \<lparr>out = [], fetched = [], files = []\<rparr>"

definition doc_pending :: json where
  "doc_pending = JObj
     [(lit ''id'', JStr (lit ''7f3a9c1e-52b0-4d6e-9a01-3c5d8e2f1b77'')),
      (lit ''originalName'', JStr (lit ''deed.pdf'')),
      (lit ''status'', JStr (lit ''pending'')),
      (lit ''uploadedAt'', JStr (lit ''2024-01-15T10:30:00.000Z''))]"

definition record_hello :: json where
  "record_hello = JObj
     [(lit ''model'', JStr (lit ''grok-2'')),
      (lit ''total_tokens'', JInt 1500),
      (lit ''response_time_ms'', JInt 500),
      (lit ''full_response_content'', JStr (lit ''hello''))]"

definition inline_data :: json where
  "inline_data = JObj [(lit ''rawExtractedData'', JObj [(lit ''fullGrokResponse'', record_hello)])]"

definition doc_pending_inline :: json where
  "doc_pending_inline = JObj
     [(lit ''id'', JStr (lit ''7f3a9c1e-52b0-4d6e-9a01-3c5d8e2f1b77'')),
      (lit ''originalName'', JStr (lit ''deed.pdf'')),
      (lit ''status'', JStr (lit ''pending'')),
      (lit ''uploadedAt'', JStr (lit ''2024-01-15T10:30:00.000Z'')),
      (lit ''propertyData'', inline_data)]"

definition doc_completed_inline :: json where
  "doc_completed_inline = JObj
     [(lit ''id'', JStr (lit ''7f3a9c1e-52b0-4d6e-9a01-3c5d8e2f1b77'')),
      (lit ''originalName'', JStr (lit ''deed.pdf'')),
      (lit ''status'', JStr (lit ''completed'')),
      (lit ''uploadedAt'', JStr (lit ''2024-01-15T10:30:00.000Z'')),
      (lit ''propertyData'', inline_data)]"

text \<open>A document that the viewer lists: it has \<open>propertyData.fullGrokResponse\<close>.\<close>

definition doc_listed :: json where
  "doc_listed = JObj
     [(lit ''id'', JStr (lit ''7f3a9c1e-52b0-4d6e-9a01-3c5d8e2f1b77'')),
      (lit ''originalName'', JStr (lit ''deed.pdf'')),
      (lit ''status'', JStr (lit ''completed'')),
      (lit ''uploadedAt'', JStr (lit ''2024-01-15T10:30:00.000Z'')),
      (lit ''propertyData'', JObj [(lit ''fullGrokResponse'', record_hello)])]"

definition detail_hello :: json where
  "detail_hello = JObj [(lit ''document'', doc_completed_inline), (lit ''fullGrokResponse'', record_hello)]"

text \<open>
  Four servers. The first cannot be reached. The other three serve the list of
  documents (\<open>doc_listed\<close> to \<open>requests.get\<close>, \<open>doc_pending_inline\<close> to \<open>curl\<close>); the
  detail endpoint of the second answers 404, that of the third and the fourth serves
  \<open>record_hello\<close>; the fourth runs in a directory where no file can be written.
\<close>

definition env_offline :: env where
  "env_offline =
     \<lparr>http_get = (\<lambda>url. Raise RequestException), curl = (\<lambda>url. Raise JSONDecodeError),
      writable = (\<lambda>name. True)\<rparr>"

definition env_no_detail :: env where
  "env_no_detail =
     \<lparr>http_get = (\<lambda>url. if url = documents_url
                         then Ok \<lparr>status_code = 200, body = Ok (JArr [doc_listed])\<rparr>
                         else Ok \<lparr>status_code = 404, body = Raise JSONDecodeError\<rparr>),
      curl = (\<lambda>url. Ok (JArr [doc_pending_inline])), writable = (\<lambda>name. True)\<rparr>"

definition env_detail :: env where
  "env_detail =
     \<lparr>http_get = (\<lambda>url. if url = documents_url
                         then Ok \<lparr>status_code = 200, body = Ok (JArr [doc_listed])\<rparr>
                         else Ok \<lparr>status_code = 200, body = Ok detail_hello\<rparr>),
      curl = (\<lambda>url. Ok (JArr [doc_pending_inline])), writable = (\<lambda>name. True)\<rparr>"


section \<open>Vocabulary of the proofs\<close>

text \<open>
  The fields of an AI Response Record as the data model of the specification types
  them, each one optional: \<open>None\<close> is an absent key. The classification is the pair
  of \<open>documentType\<close> and \<open>documentSubtype\<close> of a non-empty
  \<open>parsed_result.documentClassification\<close>; it is \<open>None\<close> when \<open>parsed_result\<close> or
  its \<open>documentClassification\<close> is absent.
\<close>

record fields =
  f_model :: "str option"
  f_prompt :: "int option"
  f_completion :: "int option"
  f_total :: "int option"
  f_time :: "int option"
  f_timestamp :: "str option"
  f_content :: "str option"
  f_class :: "(str option \<times> str option) option"

definition has_class :: "(str \<times> json) list \<Rightarrow> (str option \<times> str option) option \<Rightarrow> bool" where
  "has_class kvs c =
     (case c of
        None \<Rightarrow>
          map_of kvs (lit ''parsed_result'') = None \<or>
          (\<exists>pr. map_of kvs (lit ''parsed_result'') = Some (JObj pr) \<and>
                map_of pr (lit ''documentClassification'') = None)
      | Some ts \<Rightarrow>
          (\<exists>pr dc. map_of kvs (lit ''parsed_result'') = Some (JObj pr) \<and>
                   map_of pr (lit ''documentClassification'') = Some (JObj dc) \<and> dc \<noteq> [] \<and>
                   map_of dc (lit ''documentType'') = map_option JStr (fst ts) \<and>
                   map_of dc (lit ''documentSubtype'') = map_option JStr (snd ts)))"

definition has_fields :: "(str \<times> json) list \<Rightarrow> fields \<Rightarrow> bool" where
  "has_fields kvs f =
     (map_of kvs (lit ''model'') = map_option JStr (f_model f) \<and>
      map_of kvs (lit ''prompt_tokens'') = map_option JInt (f_prompt f) \<and>
      map_of kvs (lit ''completion_tokens'') = map_option JInt (f_completion f) \<and>
      map_of kvs (lit ''total_tokens'') = map_option JInt (f_total f) \<and>
      map_of kvs (lit ''response_time_ms'') = map_option JInt (f_time f) \<and>
      map_of kvs (lit ''timestamp'') = map_option JStr (f_timestamp f) \<and>
      map_of kvs (lit ''full_response_content'') = map_option JStr (f_content f) \<and>
      has_class kvs (f_class f))"

text \<open>The default of an absent field.\<close>

definition dflt :: "'a \<Rightarrow> 'a option \<Rightarrow> 'a" where
  "dflt d v = (case v of None \<Rightarrow> d | Some x \<Rightarrow> x)"

text \<open>The counts and the time are within the range of a 64-bit integer.\<close>

definition small_ints :: "fields \<Rightarrow> bool" where
  "small_ints f =
     (\<bar>dflt 0 (f_prompt f)\<bar> < 2 ^ 63 \<and> \<bar>dflt 0 (f_completion f)\<bar> < 2 ^ 63 \<and>
      \<bar>dflt 0 (f_total f)\<bar> < 2 ^ 63 \<and> \<bar>dflt 0 (f_time f)\<bar> < 2 ^ 63)"

text \<open>The model, the timestamp, the type and the subtype hold no surrogate code
  point, so the console can encode them. (The content is another matter: each script
  prints another part of it.)\<close>

definition plain_labels :: "fields \<Rightarrow> bool" where
  "plain_labels f =
     (encodable (dflt [] (f_model f)) \<and> encodable (dflt [] (f_timestamp f)) \<and>
      (case f_class f of
         None \<Rightarrow> True
       | Some ts \<Rightarrow> encodable (dflt [] (fst ts)) \<and> encodable (dflt [] (snd ts))))"

definition ok_text :: "str res \<Rightarrow> str" where
  "ok_text r = (case r of Ok t \<Rightarrow> t | _ \<Rightarrow> [])"

definition seconds :: "int \<Rightarrow> str" where
  "seconds n = ok_text (secs_1f n)"

text \<open>
  The texts that write \<open>n\<close> milliseconds in seconds with one decimal, rounded to
  the nearest tenth: an optional minus sign, the whole seconds, a point and the
  tenths. When \<open>n\<close> lies halfway between two tenths both neighbours are listed.
\<close>

definition nearest_tenths :: "nat \<Rightarrow> nat list" where
  "nearest_tenths a =
     (if a mod 100 < 50 then [a div 100]
      else if 50 < a mod 100 then [a div 100 + 1]
      else [a div 100, a div 100 + 1])"

definition one_decimal :: "int \<Rightarrow> str list" where
  "one_decimal n =
     map (\<lambda>t. (if n < 0 then lit ''-'' else []) @ digits (t div 10) @ lit ''.'' @ digits (t mod 10))
       (nearest_tenths (nat \<bar>n\<bar>))"

text \<open>What each script is expected to print for the fields.\<close>

definition excerpt_lines :: "str \<Rightarrow> printed list" where
  "excerpt_lines raw =
     [Line ([10] @ lit ''   '' @ [128269] @ lit '' RAW GROK RESPONSE (first 300 chars):''),
      Line (lit ''   '' @ take 300 raw @ lit ''...'')]"

definition quick_lines :: "fields \<Rightarrow> printed list" where
  "quick_lines f =
     [Line (lit ''   '' @ [9989] @ lit '' Full Grok Response Available!''),
      Line (lit ''   Model: '' @ dflt (lit ''Unknown'') (f_model f)),
      Line (lit ''   Tokens: '' @ commas (dflt 0 (f_total f))),
      Line (lit ''   Processing Time: '' @ seconds (dflt 0 (f_time f)) @ lit ''s'')] @
     (if dflt [] (f_content f) = [] then [] else excerpt_lines (dflt [] (f_content f))) @
     (case f_class f of
        None \<Rightarrow> []
      | Some ts \<Rightarrow>
          [Line ([10] @ lit ''   '' @ [128203] @ lit '' Document Classification:''),
           Line (lit ''   Type: '' @ dflt (lit ''N/A'') (fst ts)),
           Line (lit ''   Subtype: '' @ dflt (lit ''N/A'') (snd ts))])"

definition class_lines :: "str \<Rightarrow> (str option \<times> str option) option \<Rightarrow> printed list" where
  "class_lines indent c =
     (case c of
        None \<Rightarrow> []
      | Some ts \<Rightarrow>
          [Line (indent @ lit ''Type: '' @ dflt (lit ''N/A'') (fst ts)),
           Line (indent @ lit ''Subtype: '' @ dflt (lit ''N/A'') (snd ts))])"

definition sample_lines :: "str \<Rightarrow> printed list" where
  "sample_lines raw =
     [Line (lit ''   Raw response: '' @ commas (int (length raw)) @ lit '' chars''),
      Line (lit ''   Sample: '' @ take 100 raw @ lit ''...'')]"

definition show_all_lines :: "fields \<Rightarrow> str \<Rightarrow> printed list" where
  "show_all_lines f filename =
     [Line (lit ''   '' @ [9989] @ lit '' FULL GROK RESPONSE AVAILABLE''),
      Line (lit ''   Model: '' @ dflt (lit ''Unknown'') (f_model f)),
      Line (lit ''   Tokens: '' @ commas (dflt 0 (f_total f))),
      Line (lit ''   Time: '' @ seconds (dflt 0 (f_time f)) @ lit ''s'')] @
     class_lines (lit ''   '') (f_class f) @
     (if dflt [] (f_content f) = [] then []
      else sample_lines (dflt [] (f_content f)) @ [Line (lit ''   Saved to: '' @ filename)])"

definition test_lines :: "fields \<Rightarrow> printed list" where
  "test_lines f =
     [Line ([10, 9989] @ lit '' FULL GROK RESPONSE FOUND!''),
      Line (replicate 50 61),
      Line (lit ''Model: '' @ dflt (lit ''Unknown'') (f_model f)),
      Line (lit ''Total Tokens: '' @ commas (dflt 0 (f_total f))),
      Line (lit ''Processing Time: '' @ seconds (dflt 0 (f_time f)) @ lit ''s''),
      Line (lit ''Timestamp: '' @ dflt (lit ''N/A'') (f_timestamp f)),
      Line ([10, 128196] @ lit '' Raw Response Length: '' @
            commas (int (length (dflt [] (f_content f)))) @ lit '' characters''),
      Line (lit ''First 500 characters:''),
      Line (replicate 50 45),
      Line (take 500 (dflt [] (f_content f))),
      Line (replicate 50 45)] @
     (case f_class f of
        None \<Rightarrow> []
      | Some ts \<Rightarrow> Line ([10, 128203] @ lit '' Document Classification:'') # class_lines [] (Some ts)) @
     [Line ([10, 127919] @ lit '' SUCCESS: Full Grok response is accessible!''),
      Line (lit ''Saved full response to '' @ [39] @ lit ''latest_grok_response.json'' @ [39])]"

text \<open>The viewer prints \<open>N/A\<close> for an absent count or time, and for 0 as well.\<close>

definition tokens_text :: "int option \<Rightarrow> str" where
  "tokens_text v = (if dflt 0 v = 0 then lit ''N/A'' else commas (dflt 0 v))"

definition time_text :: "int option \<Rightarrow> str" where
  "time_text v =
     (if dflt 0 v = 0 then lit ''N/A''
      else if dflt 0 v < 1000 then str_int (dflt 0 v) @ lit ''ms''
      else seconds (dflt 0 v) @ lit ''s'')"

definition view_lines :: "fields \<Rightarrow> printed list" where
  "view_lines f =
     [Line ([128202] @ lit '' PROCESSING METRICS:''),
      Line (lit ''   Model: '' @ dflt (lit ''Unknown'') (f_model f)),
      Line (lit ''   Prompt Tokens: '' @ tokens_text (f_prompt f)),
      Line (lit ''   Completion Tokens: '' @ tokens_text (f_completion f)),
      Line (lit ''   Total Tokens: '' @ tokens_text (f_total f)),
      Line (lit ''   Processing Time: '' @ time_text (f_time f)),
      Line (lit ''   Response Size: '' @ commas (int (length (dflt [] (f_content f)))) @
            lit '' characters''),
      Line (lit ''   Timestamp: '' @ dflt (lit ''N/A'') (f_timestamp f)),
      Line []] @
     (case f_class f of
        None \<Rightarrow> []
      | Some ts \<Rightarrow>
          Line ([128203] @ lit '' DOCUMENT CLASSIFICATION:'') # class_lines (lit ''   '') (Some ts) @
          [Line []])"

text \<open>
  The content as the viewer shows it. \<open>shown decode encode raw t\<close>: the text \<open>t\<close>
  is what the viewer displays for the content \<open>raw\<close>, the re-encoded value when
  \<open>raw\<close> decodes and the value encodes, \<open>raw\<close> itself when one of the two raises.
  \<open>content_lines t raw\<close> are the lines printed then, \<open>no_content_lines\<close> those printed
  for an absent or empty content.
\<close>

definition shown :: "(str \<Rightarrow> 'j res) \<Rightarrow> ('j \<Rightarrow> str res) \<Rightarrow> str \<Rightarrow> str \<Rightarrow> bool" where
  "shown decode encode raw t =
     (case rbind (decode raw) encode of
        Ok u \<Rightarrow> t = u
      | Raise e \<Rightarrow> t = raw
      | Unmodelled \<Rightarrow> False)"

definition notice_lines :: "str \<Rightarrow> printed list" where
  "notice_lines raw =
     (if 2000 < length raw then
        [Line ([10] @ lit ''... (truncated, full content is '' @ commas (int (length raw)) @
               lit '' chars)'')]
      else [])"

definition content_lines :: "str \<Rightarrow> str \<Rightarrow> printed list" where
  "content_lines t raw =
     [Line ([128196] @ lit '' RAW GROK RESPONSE CONTENT:''), Line (replicate 80 45),
      Line (take 2000 t)] @
     notice_lines raw @
     [Line (replicate 80 45), Line []]"








text \<open>A computation that asks the server nothing.\<close>

definition keeps_fetched :: "'a io \<Rightarrow> bool" where
  "keeps_fetched m = (\<forall>w. fetched (snd (m w)) = fetched w)"

section \<open>Properties\<close>

subsection \<open>Evaluation rules\<close>

lemmas eval_text = lit_def digits.simps group3.simps bit_length.simps commas_def str_int_def
  many_digits_def int_text_def

lemmas eval_float = secs_1f_def true_div_def floor_log2_ratio_def rne_div_def fixed1_def Let_def

lemmas eval_io = bind_def let_val_def emit_def print_def say_def ret_def try_except_def
  requests_get_def curl_json_def write_json_def

lemma fold_max_le: "fold max ns (m::nat) \<le> k \<longleftrightarrow> m \<le> k \<and> (\<forall>n \<in> set ns. n \<le> k)"
  by (induction ns arbitrary: m) auto

lemma digits_length: "n < 10 ^ Suc k \<Longrightarrow> length (digits n) \<le> Suc k"
proof (induction k arbitrary: n)
  case 0
  then show ?case
    by (simp add: digits.simps)
next
  case (Suc k)
  show ?case
  proof (cases "n < 10")
    case True
    then show ?thesis
      by (simp add: digits.simps)
  next
    case False
    have "n div 10 < 10 ^ Suc k"
      using Suc.prems by (simp add: less_mult_imp_div_less)
    then have "length (digits (n div 10)) \<le> Suc k"
      by (rule Suc.IH)
    then show ?thesis
      using False by (subst digits.simps) simp
  qed
qed

lemma few_digits: "\<bar>n\<bar> < 2 ^ 63 \<Longrightarrow> \<not> many_digits n"
proof -
  assume "\<bar>n\<bar> < 2 ^ 63"
  then have "nat \<bar>n\<bar> < 10 ^ Suc 18"
    by (simp add: nat_less_iff)
  then have "length (digits (nat \<bar>n\<bar>)) \<le> Suc 18"
    by (rule digits_length)
  then show ?thesis
    by (simp add: many_digits_def)
qed

lemma let_val_Ok: "let_val (Ok x) f = f x"
  by (simp add: let_val_def fun_eq_iff)

lemma let_val_Raise: "let_val (Raise e) f = (\<lambda>w. (Raise e, w))"
  by (simp add: let_val_def fun_eq_iff)

lemma let_val_Unmodelled: "let_val Unmodelled f = (\<lambda>w. (Unmodelled, w))"
  by (simp add: let_val_def fun_eq_iff)

lemma length_lit [simp]: "length (lit s) = length s"
  by (simp add: lit_def)

lemma lit_eq_Nil [simp]: "lit s = [] \<longleftrightarrow> s = []"
  by (simp add: lit_def)

lemma lit_inject [simp]: "lit s = lit t \<longleftrightarrow> s = t"
  by (simp add: lit_def inj_map_eq_map inj_def)

lemma lit_append: "lit (s @ t) = lit s @ lit t"
  by (simp add: lit_def)

lemma replicate_numeral: "replicate (numeral k) x = x # replicate (pred_numeral k) x"
  by (simp add: numeral_eq_Suc)

lemma world0_simps [simp]: "out world0 = []" "fetched world0 = []" "files world0 = []"
  by (simp_all add: world0_def)

subsection \<open>Texts that the console can encode\<close>

lemma is_surrogate_numeral [simp]:
  "is_surrogate (numeral k) \<longleftrightarrow> (55296::nat) \<le> numeral k \<and> numeral k \<le> (57343::nat)"
  by (simp add: is_surrogate_def)

lemma is_surrogate_small: "c < 55296 \<Longrightarrow> \<not> is_surrogate c"
  by (simp add: is_surrogate_def)

lemma encodable_Nil [simp]: "encodable []"
  by (simp add: encodable_def)

lemma encodable_Cons [simp]: "encodable (c # s) \<longleftrightarrow> \<not> is_surrogate c \<and> encodable s"
  by (simp add: encodable_def)

lemma encodable_append [simp]: "encodable (s @ t) \<longleftrightarrow> encodable s \<and> encodable t"
  by (simp add: encodable_def)

lemma encodable_small: "(\<And>c. c \<in> set s \<Longrightarrow> c < 55296) \<Longrightarrow> encodable s"
  by (simp add: encodable_def list_all_iff is_surrogate_def) force

lemma encodable_lit [simp]: "encodable (lit s)"
proof (rule encodable_small)
  fix c
  assume "c \<in> set (lit s)"
  then obtain x :: char where "c = of_char x"
    by (auto simp: lit_def)
  moreover have "of_char x < (256::nat)"
    by (rule nat_of_char_less_256)
  ultimately show "c < 55296"
    by linarith
qed

lemma encodable_replicate [simp]: "encodable (replicate n c) \<longleftrightarrow> n = 0 \<or> \<not> is_surrogate c"
  by (auto simp: encodable_def list_all_iff)

lemma encodable_take: "encodable s \<Longrightarrow> encodable (take n s)"
  by (auto simp: encodable_def list_all_iff dest: in_set_takeD)

lemma digits_small: "c \<in> set (digits n) \<Longrightarrow> c < 58"
proof (induction n arbitrary: c rule: digits.induct)
  case (1 n)
  show ?case
  proof (cases "n < 10")
    case True
    then show ?thesis
      using "1.prems" by (simp add: digits.simps)
  next
    case False
    then have "c \<in> set (digits (n div 10)) \<or> c = 48 + n mod 10"
      using "1.prems" by (subst (asm) digits.simps) auto
    moreover have "48 + n mod 10 < 58"
      by simp
    ultimately show ?thesis
      using "1.IH" [OF False] by blast
  qed
qed

lemma encodable_digits [simp]: "encodable (digits n)"
  by (rule encodable_small) (auto dest: digits_small)

lemma encodable_str_int [simp]: "encodable (str_int n)"
  by (simp add: str_int_def)

lemma encodable_group3 [simp]: "encodable (group3 n)"
proof (induction n rule: group3.induct)
  case (1 n)
  show ?case
  proof (cases "n < 1000")
    case True
    then show ?thesis
      by (subst group3.simps) simp
  next
    case False
    then show ?thesis
      using "1.IH" by (subst group3.simps) simp
  qed
qed

lemma encodable_commas [simp]: "encodable (commas n)"
  by (simp add: commas_def)

lemma encode_text_ok [simp]: "encodable s \<Longrightarrow> encode_text s = Ok ()"
  by (simp add: encode_text_def)


lemma emit_ok: "encodable (printed_text p) \<Longrightarrow> emit p w = (Ok (), w\<lparr>out := out w @ [p]\<rparr>)"
  by (simp add: emit_def)

lemma print_ok: "encodable s \<Longrightarrow> print (Ok s) w = (Ok (), w\<lparr>out := out w @ [Line s]\<rparr>)"
  by (simp add: print_def let_val_def emit_def)

lemma say_ok: "say s w = (Ok (), w\<lparr>out := out w @ [Line (lit s)]\<rparr>)"
  by (simp add: say_def emit_def)

subsection \<open>The seconds with one decimal\<close>

lemma digit_single: "n < 10 \<Longrightarrow> digits n = [48 + n]"
  by (simp add: digits.simps)

lemma secs_1f_form:
  "case secs_1f n of
     Ok t \<Rightarrow> \<exists>d f. f < 10 \<and> (t = digits d @ [46, 48 + f] \<or> t = 45 # digits d @ [46, 48 + f])
   | Raise e \<Rightarrow> e = OverflowError
   | Unmodelled \<Rightarrow> False"
proof (cases "n = 0")
  case True
  have "lit ''0.0'' = digits 0 @ [46, 48 + 0]"
    by (simp add: lit_def digits.simps)
  then have "\<exists>d f. f < 10 \<and> (lit ''0.0'' = digits d @ [46, 48 + f] \<or> lit ''0.0'' = 45 # digits d @ [46, 48 + f])"
    by (intro exI [of _ 0]) simp
  then show ?thesis
    using True by (simp add: secs_1f_def)
next
  case False
  show ?thesis
  proof (cases "true_div (nat \<bar>n\<bar>) 1000")
    case None
    then show ?thesis
      using False by (simp add: secs_1f_def)
  next
    case (Some x)
    obtain m s where x: "x = (m, s)"
      by (cases x)
    define t where "t = (if 0 \<le> s then 10 * m * 2 ^ nat s else rne_div (10 * m) (2 ^ nat (- s)))"
    have f: "fixed1 x = digits (t div 10) @ [46, 48 + t mod 10]"
      by (simp add: fixed1_def x t_def Let_def lit_def digit_single)
    have lt: "t mod 10 < 10"
      by simp
    have "\<exists>d f. f < 10 \<and> ((if n < 0 then lit ''-'' else []) @ fixed1 x = digits d @ [46, 48 + f]
        \<or> (if n < 0 then lit ''-'' else []) @ fixed1 x = 45 # digits d @ [46, 48 + f])"
      apply (rule exI [of _ "t div 10"])
      apply (rule exI [of _ "t mod 10"])
      using lt f by (simp add: lit_def)
    then show ?thesis
      using False Some by (simp add: secs_1f_def)
  qed
qed


lemma bit_length_le: "a < 2 ^ k \<Longrightarrow> bit_length a \<le> k"
proof (induction k arbitrary: a)
  case 0
  then show ?case by (simp add: bit_length.simps)
next
  case (Suc k)
  have "a div 2 < 2 ^ k"
    using Suc.prems by simp
  then have "bit_length (a div 2) \<le> k"
    by (rule Suc.IH)
  then show ?case
    by (subst bit_length.simps) simp
qed

lemma bit_length_1000: "bit_length 1000 = 10"
  by (simp add: bit_length.simps)

lemma true_div_small: "a < 2 ^ 1000 \<Longrightarrow> \<exists>x. true_div a 1000 = Some x"
proof -
  assume "a < 2 ^ 1000"
  then have "bit_length a \<le> 1000"
    by (rule bit_length_le)
  then have "floor_log2_ratio a 1000 \<le> 990"
    by (simp add: floor_log2_ratio_def bit_length_1000 Let_def)
  then show ?thesis
    by (simp add: true_div_def Let_def)
qed

lemma secs_1f_small: "\<bar>n\<bar> < 2 ^ 63 \<Longrightarrow> secs_1f n = Ok (seconds n)"
proof -
  assume b: "\<bar>n\<bar> < 2 ^ 63"
  have "(2::int) ^ 63 \<le> 2 ^ 1000"
    by (rule power_increasing) simp_all
  then have "\<bar>n\<bar> < 2 ^ 1000"
    using b by (rule order_less_le_trans [rotated])
  then have "nat \<bar>n\<bar> < 2 ^ 1000"
    by (simp add: nat_less_iff)
  then obtain x where "true_div (nat \<bar>n\<bar>) 1000 = Some x"
    using true_div_small by blast
  then show ?thesis
    by (simp add: seconds_def ok_text_def secs_1f_def)
qed

lemma encodable_seconds [simp]: "encodable (seconds n)"
proof (cases "secs_1f n")
  case (Ok t)
  then obtain d f where "f < 10" "t = digits d @ [46, 48 + f] \<or> t = 45 # digits d @ [46, 48 + f]"
    using secs_1f_form [of n] by auto
  then have "encodable t"
    by (auto simp: is_surrogate_def)
  then show ?thesis
    using Ok by (simp add: seconds_def ok_text_def)
qed (simp_all add: seconds_def ok_text_def)

lemma encodable_dflt: "encodable (dflt [] v) \<Longrightarrow> encodable d \<Longrightarrow> encodable (dflt d v)"
  by (cases v) (simp_all add: dflt_def)

lemma encodable_tokens_text [simp]: "encodable (tokens_text v)"
  by (simp add: tokens_text_def)

lemma encodable_time_text [simp]: "encodable (time_text v)"
  by (simp add: time_text_def)

subsection \<open>A record whose fields are typed\<close>

lemma getf_str:
  "map_of kvs (lit k) = map_option JStr v \<Longrightarrow> getf (JObj kvs) k (JStr d) py_str = Ok (dflt d v)"
  by (cases v) (simp_all add: getf_def dflt_def)

lemma getf_comma:
  "map_of kvs (lit k) = map_option JInt v \<Longrightarrow> \<bar>dflt 0 v\<bar> < 2 ^ 63 \<Longrightarrow>
   getf (JObj kvs) k (JInt 0) fmt_comma = Ok (commas (dflt 0 v))"
  by (cases v) (simp_all add: getf_def dflt_def few_digits)

lemma getf_secs:
  "map_of kvs (lit k) = map_option JInt v \<Longrightarrow> \<bar>dflt 0 v\<bar> < 2 ^ 63 \<Longrightarrow>
   getf (JObj kvs) k (JInt 0) fmt_secs = Ok (seconds (dflt 0 v))"
  by (cases v) (simp_all add: getf_def dflt_def secs_1f_small)

lemma content_get:
  "map_of kvs (lit ''full_response_content'') = map_option JStr v \<Longrightarrow>
   dict_get (JObj kvs) (lit ''full_response_content'') (JStr []) = Ok (JStr (dflt [] v))"
  by (cases v) (simp_all add: dflt_def)



lemma plain_model: "plain_labels f \<Longrightarrow> encodable (dflt (lit ''Unknown'') (f_model f))"
  by (simp add: plain_labels_def encodable_dflt)

lemma plain_timestamp: "plain_labels f \<Longrightarrow> encodable (dflt (lit ''N/A'') (f_timestamp f))"
  by (simp add: plain_labels_def encodable_dflt)


lemma quick_metrics_typed:
  assumes "has_fields kvs f" and "small_ints f" and "plain_labels f"
  shows "quick_metrics (JObj kvs) w = (Ok (), w\<lparr>out := out w @ take 4 (quick_lines f)\<rparr>)"
  using assms plain_model [OF assms(3)]
  by (simp add: has_fields_def small_ints_def quick_metrics_def quick_lines_def getf_str getf_comma
      getf_secs eval_io)

lemma quick_excerpt_typed:
  assumes "map_of kvs (lit ''full_response_content'') = map_option JStr c"
    and "encodable (take 300 (dflt [] c))"
  shows "quick_excerpt (JObj kvs) w = (Ok (), w\<lparr>out := out w @
     (if dflt [] c = [] then [] else excerpt_lines (dflt [] c))\<rparr>)"
  using assms
  by (cases c) (simp_all add: quick_excerpt_def excerpt_lines_def dflt_def eval_io)






lemma show_all_metrics_typed:
  assumes "has_fields kvs f" and "small_ints f" and "plain_labels f"
  shows "show_all_metrics (JObj kvs) w = (Ok (), w\<lparr>out := out w @ take 4 (show_all_lines f fn)\<rparr>)"
  using assms plain_model [OF assms(3)]
  by (simp add: has_fields_def small_ints_def show_all_metrics_def show_all_lines_def getf_str
      getf_comma getf_secs eval_io)

lemma show_all_sample_typed:
  "encodable (take 100 raw) \<Longrightarrow>
   show_all_sample (JStr raw) w = (Ok (), w\<lparr>out := out w @ sample_lines raw\<rparr>)"
  by (simp add: show_all_sample_def sample_lines_def eval_io)


lemma test_metrics_typed:
  assumes "has_fields kvs f" and "small_ints f" and "plain_labels f"
  shows "test_metrics (JObj kvs) w = (Ok (), w\<lparr>out := out w @ take 6 (test_lines f)\<rparr>)"
  using assms plain_model [OF assms(3)] plain_timestamp [OF assms(3)]
  by (simp add: has_fields_def small_ints_def test_metrics_def test_lines_def getf_str getf_comma
      getf_secs eval_io)



lemma getf_tokens:
  "map_of kvs (lit k) = map_option JInt v \<Longrightarrow> \<bar>dflt 0 v\<bar> < 2 ^ 63 \<Longrightarrow>
   getf (JObj kvs) k JNull format_tokens = Ok (tokens_text v)"
  by (cases v) (simp_all add: getf_def dflt_def format_tokens_def tokens_text_def few_digits)

lemma getf_time:
  "map_of kvs (lit k) = map_option JInt v \<Longrightarrow> \<bar>dflt 0 v\<bar> < 2 ^ 63 \<Longrightarrow>
   getf (JObj kvs) k JNull format_time = Ok (time_text v)"
  by (cases v)
    (simp_all add: getf_def dflt_def format_time_def time_text_def secs_1f_small int_text_def
      few_digits)

lemma display_metrics_typed:
  assumes "has_fields kvs f" and "small_ints f" and "plain_labels f"
  shows "display_metrics (JObj kvs) w = (Ok (), w\<lparr>out := out w @ take 9 (view_lines f)\<rparr>)"
proof -
  have m: "map_of kvs (lit ''full_response_content'') = map_option JStr (f_content f)"
    using assms(1) by (simp add: has_fields_def)
  have c: "rbind (rbind (dict_get (JObj kvs) (lit ''full_response_content'') (JStr [])) py_len)
             (\<lambda>n. Ok (commas (int n))) = Ok (commas (int (length (dflt [] (f_content f)))))"
    using m by (cases "f_content f") (simp_all add: dflt_def)
  show ?thesis
    using assms plain_model [OF assms(3)] plain_timestamp [OF assms(3)]
    by (simp add: has_fields_def small_ints_def display_metrics_def view_lines_def getf_str
        getf_tokens getf_time c eval_io del: dict_get.simps)
qed

subsection \<open>The content as the viewer shows it\<close>

lemma truncation_notice_text:
  "truncation_notice (JStr raw) w = (Ok (), w\<lparr>out := out w @ notice_lines raw\<rparr>)"
  by (simp add: truncation_notice_def notice_lines_def eval_io)

lemma display_content_shown:
  assumes "map_of kvs (lit ''full_response_content'') = Some (JStr raw)" and "raw \<noteq> []"
    and "shown decode encode raw t" and "encodable (take 2000 t)"
  shows "display_content decode encode (JObj kvs) w =
    (Ok (), w\<lparr>out := out w @ content_lines t raw\<rparr>)"
proof (cases "decode raw")
  case (Ok v)
  show ?thesis
  proof (cases "encode v")
    case (Ok u)
    then show ?thesis
      using assms \<open>decode raw = Ok v\<close>
      by (simp add: display_content_def shown_def content_lines_def truncation_notice_text
          bind_def let_val_def emit_def print_def ret_def try_except_def say_def)
  next
    case (Raise e)
    then show ?thesis
      using assms \<open>decode raw = Ok v\<close>
      by (simp add: display_content_def shown_def content_lines_def truncation_notice_text
          bind_def let_val_def emit_def print_def ret_def try_except_def say_def)
  next
    case Unmodelled
    then show ?thesis
      using assms \<open>decode raw = Ok v\<close> by (simp add: shown_def)
  qed
next
  case (Raise e)
  then show ?thesis
    using assms
    by (simp add: display_content_def shown_def content_lines_def truncation_notice_text
        bind_def let_val_def emit_def print_def ret_def try_except_def say_def)
next
  case Unmodelled
  then show ?thesis
    using assms by (simp add: shown_def)
qed




subsection \<open>Decoding and encoding the examples\<close>

lemmas eval_loads = loads_def parse_value.simps parse_elements.simps parse_members.simps
  scan_string.simps scan_number_def scan_digits_def float_follows_def starts_with_def skip_ws_def
  is_ws_def hex4_def hex_val_def unescape_def is_high_def is_low_def join_surrogates_def
  is_digit_def num_of_def dict_set.simps

lemmas eval_dumps = dumps_def dumps_str_def escape_char_def newline_indent_def replicate_numeral

lemma loads_object: "loads (lit ''{\"a\":1}'') = Ok (JObj [(lit ''a'', JInt 1)])"
  by (simp add: eval_loads lit_def)


lemma loads_hello: "loads (lit ''hello'') = Raise JSONDecodeError"
  by (simp add: eval_loads lit_def)



lemma dumps_object:
  "dumps (JObj [(lit ''a'', JInt 1)]) = lit ''{'' @ [10] @ lit ''  \"a\": 1'' @ [10] @ lit ''}''"
  by (simp add: eval_dumps eval_text)

lemma json_dumps_object:
  "json_dumps (JObj [(lit ''a'', JInt 1)]) =
     Ok (lit ''{'' @ [10] @ lit ''  \"a\": 1'' @ [10] @ lit ''}'')"
  by (simp add: json_dumps_def dumpable_def dumps_object many_digits_def digits.simps)

subsection \<open>The content: parsed, else raw\<close>




subsection \<open>The excerpt\<close>

text \<open>
  Claim C1, as stated, fails at the first call site: the content \<open>hello\<close> is shorter than
  the bound of 300 characters, and \<open>quick_grok_access.py\<close> still prints it followed by
  three dots.
\<close>

theorem excerpt_counterexample:
  "quick_excerpt (JObj [(lit ''full_response_content'', JStr (lit ''hello''))]) world0 =
     (Ok (), world0\<lparr>out :=
        [Line ([10] @ lit ''   '' @ [128269] @ lit '' RAW GROK RESPONSE (first 300 chars):''),
         Line (lit ''   hello...'')]\<rparr>)"
  using quick_excerpt_typed [of "[(lit ''full_response_content'', JStr (lit ''hello''))]"
      "Some (lit ''hello'')" world0]
  by (simp add: dflt_def excerpt_lines_def lit_append [symmetric])

text \<open>
  Claim C1, amended. \<open>quick_grok_access.py\<close> prints the first 300 characters of a non-empty
  content and \<open>show_all_grok_responses.py\<close> the first 100, each followed by three dots
  whatever the length and by no count (the second script prints the total length on the
  line before). \<open>view_grok_responses.py\<close> prints the first 2000 characters of the text
  it shows, which is the re-encoded content when the content is JSON and the raw
  content when it is not, and adds the notice with the total length of the raw content
  exactly when the raw content is longer than 2000 characters. All this holds when the
  characters printed hold no surrogate code point.
\<close>

theorem excerpt_rendering:
  "(map_of kvs (lit ''full_response_content'') = Some (JStr raw) \<and> raw \<noteq> [] \<and>
    encodable (take 300 raw) \<longrightarrow>
      quick_excerpt (JObj kvs) w =
        (Ok (), w\<lparr>out := out w @
           [Line ([10] @ lit ''   '' @ [128269] @ lit '' RAW GROK RESPONSE (first 300 chars):''),
            Line (lit ''   '' @ take 300 raw @ lit ''...'')]\<rparr>)) \<and>
   (encodable (take 100 raw) \<longrightarrow>
      show_all_sample (JStr raw) w =
        (Ok (), w\<lparr>out := out w @
           [Line (lit ''   Raw response: '' @ commas (int (length raw)) @ lit '' chars''),
            Line (lit ''   Sample: '' @ take 100 raw @ lit ''...'')]\<rparr>)) \<and>
   (map_of kvs (lit ''full_response_content'') = Some (JStr raw) \<and> raw \<noteq> [] \<and>
    shown decode encode raw t \<and> encodable (take 2000 t) \<longrightarrow>
      display_content decode encode (JObj kvs) w =
        (Ok (), w\<lparr>out := out w @
           [Line ([128196] @ lit '' RAW GROK RESPONSE CONTENT:''), Line (replicate 80 45),
            Line (take 2000 t)] @
           (if 2000 < length raw then
              [Line ([10] @ lit ''... (truncated, full content is '' @ commas (int (length raw)) @
                     lit '' chars)'')]
            else []) @
           [Line (replicate 80 45), Line []]\<rparr>))"
proof -
  have a: "quick_excerpt (JObj kvs) w =
        (Ok (), w\<lparr>out := out w @
           [Line ([10] @ lit ''   '' @ [128269] @ lit '' RAW GROK RESPONSE (first 300 chars):''),
            Line (lit ''   '' @ take 300 raw @ lit ''...'')]\<rparr>)"
    if "map_of kvs (lit ''full_response_content'') = Some (JStr raw)" "raw \<noteq> []"
      "encodable (take 300 raw)"
    using that quick_excerpt_typed [of kvs "Some raw" w]
    by (simp add: dflt_def excerpt_lines_def)
  have b: "show_all_sample (JStr raw) w =
        (Ok (), w\<lparr>out := out w @
           [Line (lit ''   Raw response: '' @ commas (int (length raw)) @ lit '' chars''),
            Line (lit ''   Sample: '' @ take 100 raw @ lit ''...'')]\<rparr>)"
    if "encodable (take 100 raw)"
    using that by (simp add: show_all_sample_typed sample_lines_def)
  have c: "display_content decode encode (JObj kvs) w =
      (Ok (), w\<lparr>out := out w @ content_lines t raw\<rparr>)"
    if "map_of kvs (lit ''full_response_content'') = Some (JStr raw)" "raw \<noteq> []"
      "shown decode encode raw t" "encodable (take 2000 t)"
    using that by (rule display_content_shown)
  show ?thesis
    using a b c by (simp add: content_lines_def notice_lines_def)
qed

theorem excerpt_rendering_witness:
  "quick_excerpt record_hello world0 =
     (Ok (), world0\<lparr>out :=
        [Line ([10] @ lit ''   '' @ [128269] @ lit '' RAW GROK RESPONSE (first 300 chars):''),
         Line (lit ''   hello...'')]\<rparr>) \<and>
   show_all_sample (JStr (lit ''hello'')) world0 =
     (Ok (), world0\<lparr>out :=
        [Line (lit ''   Raw response: 5 chars''), Line (lit ''   Sample: hello...'')]\<rparr>) \<and>
   display_content loads json_dumps record_hello world0 =
     (Ok (), world0\<lparr>out :=
        [Line ([128196] @ lit '' RAW GROK RESPONSE CONTENT:''), Line (replicate 80 45),
         Line (lit ''hello''), Line (replicate 80 45), Line []]\<rparr>) \<and>
   display_content loads json_dumps
     (JObj [(lit ''full_response_content'', JStr (lit ''{\"a\":1}''))]) world0 =
     (Ok (), world0\<lparr>out :=
        [Line ([128196] @ lit '' RAW GROK RESPONSE CONTENT:''), Line (replicate 80 45),
         Line (lit ''{'' @ [10] @ lit ''  \"a\": 1'' @ [10] @ lit ''}''),
         Line (replicate 80 45), Line []]\<rparr>)"
  using excerpt_rendering [of "[(lit ''model'', JStr (lit ''grok-2'')),
      (lit ''total_tokens'', JInt 1500),
      (lit ''response_time_ms'', JInt 500),
      (lit ''full_response_content'', JStr (lit ''hello''))]" "lit ''hello''" world0 loads
      json_dumps "lit ''hello''"]
    excerpt_rendering [of "[(lit ''full_response_content'', JStr (lit ''{\"a\":1}''))]"
      "lit ''{\"a\":1}''" world0 loads json_dumps
      "lit ''{'' @ [10] @ lit ''  \"a\": 1'' @ [10] @ lit ''}''"]
  by (simp add: shown_def loads_object loads_hello json_dumps_object record_hello_def
      lit_append [symmetric] commas_def group3.simps digits.simps) (simp add: lit_def)

subsection \<open>Absent fields\<close>







subsection \<open>Seconds with one decimal are the nearest tenth\<close>

lemma rne_div_bounds:
  assumes "0 < d"
  shows "2 * (rne_div n d * d) \<le> 2 * n + d" and "2 * n \<le> 2 * (rne_div n d * d) + d"
proof -
  define q r where "q = n div d" and "r = n mod d"
  have n: "n = q * d + r" and r: "r < d"
    using assms by (simp_all add: q_def r_def)
  have "rne_div n d = q \<and> 2 * r \<le> d \<or> rne_div n d = Suc q \<and> d \<le> 2 * r"
    by (auto simp: rne_div_def Let_def q_def r_def)
  then show "2 * (rne_div n d * d) \<le> 2 * n + d" and "2 * n \<le> 2 * (rne_div n d * d) + d"
    using n r by (auto simp: algebra_simps)
qed

lemma nearest_tenths_iff:
  "t \<in> set (nearest_tenths a) \<longleftrightarrow> 100 * t \<le> a + 50 \<and> a \<le> 100 * t + 50"
proof -
  define q r where "q = a div 100" and "r = a mod 100"
  have a: "a = 100 * q + r" and r: "r < 100"
    by (simp_all add: q_def r_def)
  show ?thesis
    unfolding nearest_tenths_def q_def [symmetric] r_def [symmetric]
    using a r by auto
qed

lemma floor_log2_ratio_le: "floor_log2_ratio a b \<le> int (bit_length a) - int (bit_length b)"
  by (simp add: floor_log2_ratio_def Let_def)

lemma tenths_of_quotient:
  assumes a: "0 < a" "a < 2 ^ 53"
  shows "\<exists>t. true_div a 1000 \<noteq> None \<and>
    fixed1 (the (true_div a 1000)) = digits (t div 10) @ lit ''.'' @ digits (t mod 10) \<and>
    t \<in> set (nearest_tenths a)"
proof -
  define e where "e = floor_log2_ratio a 1000"
  have "bit_length a \<le> 53"
    using a(2) by (rule bit_length_le)
  then have e: "e \<le> 43"
    using floor_log2_ratio_le [of a 1000] by (simp add: e_def bit_length_1000)
  define k where "k = nat (52 - e)"
  have k: "9 \<le> k" and s: "e - 52 < 0" "nat (- (e - 52)) = k"
    using e by (simp_all add: k_def)
  define D :: nat where "D = 2 ^ k"
  have "(2::nat) ^ 9 \<le> 2 ^ k"
    using k by (intro power_increasing) simp_all
  then have D: "512 \<le> D"
    by (simp add: D_def)
  define m where "m = rne_div (a * D) 1000"
  define t where "t = rne_div (10 * m) D"
  have td: "true_div a 1000 = Some (m, e - 52)"
    using e s by (simp add: true_div_def Let_def e_def [symmetric] m_def D_def)
  have fx: "fixed1 (m, e - 52) = digits (t div 10) @ lit ''.'' @ digits (t mod 10)"
    using s by (simp add: fixed1_def Let_def t_def D_def)
  have m1: "2 * (m * 1000) \<le> 2 * (a * D) + 1000" and m2: "2 * (a * D) \<le> 2 * (m * 1000) + 1000"
    unfolding m_def by (rule rne_div_bounds, simp)+
  have t1: "2 * (t * D) \<le> 2 * (10 * m) + D" and t2: "2 * (10 * m) \<le> 2 * (t * D) + D"
    unfolding t_def using D by (intro rne_div_bounds; simp)+
  have "D * (100 * t) < D * (a + 51)"
    using m1 t1 D by (simp add: algebra_simps)
  then have u: "100 * t \<le> a + 50"
    by simp
  have "D * a < D * (100 * t + 51)"
    using m2 t2 D by (simp add: algebra_simps)
  then have l: "a \<le> 100 * t + 50"
    by simp
  show ?thesis
    using td fx u l by (auto simp: nearest_tenths_iff)
qed

lemma seconds_nearest:
  assumes "\<bar>n\<bar> < 2 ^ 53"
  shows "seconds n \<in> set (one_decimal n)"
proof (cases "n = 0")
  case True
  then show ?thesis
    by (simp add: seconds_def ok_text_def secs_1f_def one_decimal_def nearest_tenths_def
        lit_def digits.simps)
next
  case False
  then have "0 < nat \<bar>n\<bar>" "nat \<bar>n\<bar> < 2 ^ 53"
    using assms by (simp_all add: nat_less_iff)
  then obtain t x where "true_div (nat \<bar>n\<bar>) 1000 = Some x"
      "fixed1 x = digits (t div 10) @ lit ''.'' @ digits (t mod 10)"
      "t \<in> set (nearest_tenths (nat \<bar>n\<bar>))"
    using tenths_of_quotient [of "nat \<bar>n\<bar>"] by auto
  then show ?thesis
    using False by (auto simp: seconds_def ok_text_def secs_1f_def one_decimal_def)
qed

subsection \<open>The processing time\<close>

text \<open>
  Claim C5, as stated, fails. A response time of 0 ms is below 1000 and \<open>format_time\<close>
  prints \<open>N/A\<close> for it, not milliseconds; and \<open>quick_grok_access.py\<close> prints a response
  time of 500 ms in seconds, \<open>0.5s\<close>.
\<close>

theorem processing_time_counterexample:
  "format_time (JInt 0) = Ok (lit ''N/A'') \<and>
   quick_metrics (JObj [(lit ''response_time_ms'', JInt 500)]) world0 =
     (Ok (), world0\<lparr>out :=
        [Line (lit ''   '' @ [9989] @ lit '' Full Grok Response Available!''),
         Line (lit ''   Model: Unknown''),
         Line (lit ''   Tokens: 0''),
         Line (lit ''   Processing Time: 0.5s'')]\<rparr>)"
  by (simp add: format_time_def quick_metrics_def getf_def eval_io eval_float eval_text
      is_surrogate_def)

text \<open>
  Claim C5, amended. \<open>format_time\<close> of \<open>view_grok_responses.py\<close> gives \<open>N/A\<close> for a null
  and for a zero response time (and the viewer passes null for an absent one), the
  number followed by \<open>ms\<close> for any other integer below 1000, a negative one included,
  and the seconds with one decimal followed by \<open>s\<close> from 1000 on. The other three
  scripts print the seconds with one decimal followed by \<open>s\<close> whatever the integer, and
  \<open>0.0s\<close> for an absent field. This holds for a time of magnitude below \<open>2 ^ 53\<close>
  milliseconds (\<open>2 ^ 63\<close> for the lines of the four scripts), in a record whose fields
  are typed and can be printed. The seconds with one decimal are the time rounded to
  the nearest tenth of a second: \<open>one_decimal n\<close> lists that text, and the two
  neighbours when the time lies halfway.
\<close>

theorem processing_time_rendering:
  "format_time JNull = Ok (lit ''N/A'') \<and>
   format_time (JInt 0) = Ok (lit ''N/A'') \<and>
   (n \<noteq> 0 \<and> n < 1000 \<and> - (2 ^ 53) < n \<longrightarrow> format_time (JInt n) = Ok (str_int n @ lit ''ms'')) \<and>
   (1000 \<le> n \<and> n < 2 ^ 53 \<longrightarrow> format_time (JInt n) = Ok (seconds n @ lit ''s'')) \<and>
   (\<bar>n\<bar> < 2 ^ 53 \<longrightarrow> fmt_secs (JInt n) = Ok (seconds n) \<and> seconds n \<in> set (one_decimal n)) \<and>
   (has_fields kvs f \<and> small_ints f \<and> plain_labels f \<longrightarrow>
      quick_metrics (JObj kvs) w =
        (Ok (), w\<lparr>out := out w @
           [Line (lit ''   '' @ [9989] @ lit '' Full Grok Response Available!''),
            Line (lit ''   Model: '' @ dflt (lit ''Unknown'') (f_model f)),
            Line (lit ''   Tokens: '' @ commas (dflt 0 (f_total f))),
            Line (lit ''   Processing Time: '' @ seconds (dflt 0 (f_time f)) @ lit ''s'')]\<rparr>) \<and>
      show_all_metrics (JObj kvs) w =
        (Ok (), w\<lparr>out := out w @
           [Line (lit ''   '' @ [9989] @ lit '' FULL GROK RESPONSE AVAILABLE''),
            Line (lit ''   Model: '' @ dflt (lit ''Unknown'') (f_model f)),
            Line (lit ''   Tokens: '' @ commas (dflt 0 (f_total f))),
            Line (lit ''   Time: '' @ seconds (dflt 0 (f_time f)) @ lit ''s'')]\<rparr>) \<and>
      test_metrics (JObj kvs) w =
        (Ok (), w\<lparr>out := out w @
           [Line ([10, 9989] @ lit '' FULL GROK RESPONSE FOUND!''),
            Line (replicate 50 61),
            Line (lit ''Model: '' @ dflt (lit ''Unknown'') (f_model f)),
            Line (lit ''Total Tokens: '' @ commas (dflt 0 (f_total f))),
            Line (lit ''Processing Time: '' @ seconds (dflt 0 (f_time f)) @ lit ''s''),
            Line (lit ''Timestamp: '' @ dflt (lit ''N/A'') (f_timestamp f))]\<rparr>) \<and>
      display_metrics (JObj kvs) w =
        (Ok (), w\<lparr>out := out w @
           [Line ([128202] @ lit '' PROCESSING METRICS:''),
            Line (lit ''   Model: '' @ dflt (lit ''Unknown'') (f_model f)),
            Line (lit ''   Prompt Tokens: '' @ tokens_text (f_prompt f)),
            Line (lit ''   Completion Tokens: '' @ tokens_text (f_completion f)),
            Line (lit ''   Total Tokens: '' @ tokens_text (f_total f)),
            Line (lit ''   Processing Time: '' @
                  (if dflt 0 (f_time f) = 0 then lit ''N/A''
                   else if dflt 0 (f_time f) < 1000 then str_int (dflt 0 (f_time f)) @ lit ''ms''
                   else seconds (dflt 0 (f_time f)) @ lit ''s'')),
            Line (lit ''   Response Size: '' @ commas (int (length (dflt [] (f_content f)))) @
                  lit '' characters''),
            Line (lit ''   Timestamp: '' @ dflt (lit ''N/A'') (f_timestamp f)),
            Line []]\<rparr>))"
proof -
  have b: "\<bar>n\<bar> < 2 ^ 63" if "\<bar>n\<bar> < 2 ^ 53"
  proof -
    have "(2::int) ^ 53 \<le> 2 ^ 63"
      by (rule power_increasing) simp_all
    then show ?thesis
      using that by linarith
  qed
  have a: "format_time (JInt n) = Ok (str_int n @ lit ''ms'')"
    if "n \<noteq> 0" "n < 1000" "- (2 ^ 53) < n"
  proof -
    have "\<bar>n\<bar> < 2 ^ 53"
      using that by simp
    then have "\<not> many_digits n"
      by (intro few_digits b)
    then show ?thesis
      using that by (simp add: format_time_def int_text_def)
  qed
  have c: "format_time (JInt n) = Ok (seconds n @ lit ''s'')" if "1000 \<le> n" "n < 2 ^ 53"
  proof -
    have "\<bar>n\<bar> < 2 ^ 53"
      using that by simp
    then have "secs_1f n = Ok (seconds n)"
      by (intro secs_1f_small b)
    then show ?thesis
      using that by (simp add: format_time_def)
  qed
  have d: "fmt_secs (JInt n) = Ok (seconds n) \<and> seconds n \<in> set (one_decimal n)"
    if "\<bar>n\<bar> < 2 ^ 53"
    using that by (simp add: secs_1f_small b seconds_nearest)
  have e: "quick_metrics (JObj kvs) w = (Ok (), w\<lparr>out := out w @ take 4 (quick_lines f)\<rparr>)"
      "show_all_metrics (JObj kvs) w = (Ok (), w\<lparr>out := out w @ take 4 (show_all_lines f [])\<rparr>)"
      "test_metrics (JObj kvs) w = (Ok (), w\<lparr>out := out w @ take 6 (test_lines f)\<rparr>)"
      "display_metrics (JObj kvs) w = (Ok (), w\<lparr>out := out w @ take 9 (view_lines f)\<rparr>)"
    if "has_fields kvs f" "small_ints f" "plain_labels f"
    using that
    by (simp_all add: quick_metrics_typed show_all_metrics_typed test_metrics_typed
        display_metrics_typed)
  show ?thesis
    using a c d e
    by (simp add: format_time_def quick_lines_def show_all_lines_def test_lines_def view_lines_def
        time_text_def)
qed

lemma seconds_examples:
  "seconds 1500 = lit ''1.5''" "seconds 500 = lit ''0.5''" "seconds 250 = lit ''0.2''"
  "seconds 1949 = lit ''1.9''" "seconds (- 40) = lit ''-0.0''"
  by (simp_all add: seconds_def ok_text_def eval_float eval_text)

theorem processing_time_rendering_witness:
  "format_time (JInt 999) = Ok (lit ''999ms'') \<and>
   format_time (JInt 1500) = Ok (lit ''1.5s'') \<and>
   fmt_secs (JInt 1500) = Ok (lit ''1.5'') \<and> one_decimal 1500 = [lit ''1.5''] \<and>
   fmt_secs (JInt 250) = Ok (lit ''0.2'') \<and> one_decimal 250 = [lit ''0.2'', lit ''0.3''] \<and>
   quick_metrics record_hello world0 =
     (Ok (), world0\<lparr>out :=
        [Line (lit ''   '' @ [9989] @ lit '' Full Grok Response Available!''),
         Line (lit ''   Model: grok-2''),
         Line (lit ''   Tokens: 1,500''),
         Line (lit ''   Processing Time: 0.5s'')]\<rparr>) \<and>
   show_all_metrics record_hello world0 =
     (Ok (), world0\<lparr>out :=
        [Line (lit ''   '' @ [9989] @ lit '' FULL GROK RESPONSE AVAILABLE''),
         Line (lit ''   Model: grok-2''),
         Line (lit ''   Tokens: 1,500''),
         Line (lit ''   Time: 0.5s'')]\<rparr>) \<and>
   test_metrics record_hello world0 =
     (Ok (), world0\<lparr>out :=
        [Line ([10, 9989] @ lit '' FULL GROK RESPONSE FOUND!''),
         Line (replicate 50 61),
         Line (lit ''Model: grok-2''),
         Line (lit ''Total Tokens: 1,500''),
         Line (lit ''Processing Time: 0.5s''),
         Line (lit ''Timestamp: N/A'')]\<rparr>) \<and>
   display_metrics record_hello world0 =
     (Ok (), world0\<lparr>out :=
        [Line ([128202] @ lit '' PROCESSING METRICS:''),
         Line (lit ''   Model: grok-2''),
         Line (lit ''   Prompt Tokens: N/A''),
         Line (lit ''   Completion Tokens: N/A''),
         Line (lit ''   Total Tokens: 1,500''),
         Line (lit ''   Processing Time: 500ms''),
         Line (lit ''   Response Size: 5 characters''),
         Line (lit ''   Timestamp: N/A''),
         Line []]\<rparr>)"
proof -
  define f where "f = \<lparr>f_model = Some (lit ''grok-2''), f_prompt = None, f_completion = None,
    f_total = Some 1500, f_time = Some 500, f_timestamp = None, f_content = Some (lit ''hello''),
    f_class = None\<rparr>"
  define kvs where "kvs = [(lit ''model'', JStr (lit ''grok-2'')),
      (lit ''total_tokens'', JInt 1500),
      (lit ''response_time_ms'', JInt 500),
      (lit ''full_response_content'', JStr (lit ''hello''))]"
  have h: "has_fields kvs f" "small_ints f" "plain_labels f"
    by (simp_all add: has_fields_def has_class_def small_ints_def plain_labels_def f_def kvs_def
        dflt_def)
  have t: "commas 1500 = lit ''1,500''" "commas 5 = lit ''5''" "str_int 500 = lit ''500''"
      "str_int 999 = lit ''999''"
    by (simp_all add: eval_text)
  have o: "one_decimal 1500 = [lit ''1.5'']" "one_decimal 250 = [lit ''0.2'', lit ''0.3'']"
    by (simp_all add: one_decimal_def nearest_tenths_def eval_text)
  show ?thesis
    using processing_time_rendering [of 999 kvs f world0]
      processing_time_rendering [of 1500 kvs f world0]
      processing_time_rendering [of 250 kvs f world0] h
    by (simp add: o t seconds_examples record_hello_def kvs_def [symmetric] tokens_text_def)
      (simp add: f_def dflt_def t seconds_examples lit_append [symmetric])
qed

subsection \<open>Computations that ask the server nothing\<close>

lemma keeps_ret: "keeps_fetched (ret x)"
  by (simp add: keeps_fetched_def ret_def)

lemma keeps_emit: "keeps_fetched (emit p)"
  by (simp add: keeps_fetched_def emit_def split: res.splits)

lemma keeps_let_val: "(\<And>x. keeps_fetched (f x)) \<Longrightarrow> keeps_fetched (let_val r f)"
  by (cases r) (simp_all add: keeps_fetched_def let_val_def)

lemma keeps_print: "keeps_fetched (print r)"
  unfolding print_def by (intro keeps_let_val keeps_emit)

lemma keeps_say: "keeps_fetched (say s)"
  unfolding say_def by (rule keeps_emit)

lemma keeps_bind: "keeps_fetched m \<Longrightarrow> (\<And>x. keeps_fetched (f x)) \<Longrightarrow> keeps_fetched (bind m f)"
  unfolding keeps_fetched_def bind_def
proof
  fix w
  assume m: "\<forall>w. fetched (snd (m w)) = fetched w" and f: "\<And>x. \<forall>w. fetched (snd (f x w)) = fetched w"
  obtain r w' where mw: "m w = (r, w')"
    by (cases "m w")
  have "fetched w' = fetched w"
    using m mw by (metis snd_conv)
  then show "fetched (snd (case m w of (Ok x, w') \<Rightarrow> f x w' | (Raise e, w') \<Rightarrow> (Raise e, w')
      | (Unmodelled, w') \<Rightarrow> (Unmodelled, w'))) = fetched w"
    using mw f by (cases r) simp_all
qed

lemma keeps_block: "(\<And>c. c \<in> set cs \<Longrightarrow> keeps_fetched c) \<Longrightarrow> keeps_fetched (block cs)"
  by (induction cs) (auto intro: keeps_ret keeps_bind)

lemma keeps_if: "keeps_fetched a \<Longrightarrow> keeps_fetched b \<Longrightarrow> keeps_fetched (if c then a else b)"
  by simp

lemma keeps_write_json: "keeps_fetched (write_json E name v)"
  by (simp add: keeps_fetched_def write_json_def split: res.splits)

lemmas keeps_intros = keeps_ret keeps_emit keeps_let_val keeps_print keeps_say keeps_bind keeps_if
  keeps_write_json

lemma keeps_show_all_doc: "keeps_fetched (show_all_doc E c idoc)"
  unfolding show_all_doc_def show_all_entry_def show_all_render_def show_all_metrics_def
    show_all_classification_def show_all_sample_def show_all_save_def block.simps
  by (cases idoc) (auto intro!: keeps_intros)


lemma keeps_test_doc: "keeps_fetched (test_doc E doc)"
  unfolding test_doc_def test_entry_def test_render_def test_metrics_def test_content_def
    test_classification_def test_save_def block.simps
  by (auto intro!: keeps_intros)

lemma write_json_cong: "writable E' = writable E \<Longrightarrow> write_json E' = write_json E"
  by (simp add: write_json_def open_name_def fun_eq_iff)

lemma show_all_doc_cong:
  assumes "writable E' = writable E"
  shows "show_all_doc E' c idoc = show_all_doc E c idoc"
  unfolding show_all_doc_def show_all_render_def show_all_save_def write_json_cong [OF assms] ..

lemma test_doc_cong:
  assumes "writable E' = writable E"
  shows "test_doc E' doc = test_doc E doc"
  unfolding test_doc_def test_render_def test_save_def write_json_cong [OF assms] ..

lemma show_all_doc_inline:
  assumes "has_raw_data doc = Ok True" and "raw_data_item doc = Ok rd"
    and "subscript rd (lit ''fullGrokResponse'') = Ok gr" and "truthy gr"
  shows "show_all_doc E c (n, doc) w =
    bind (show_all_entry n doc) (\<lambda>_. bind (show_all_render E doc gr) (\<lambda>_. ret (Suc c))) w"
proof -
  have "dict_get rd (lit ''fullGrokResponse'') JNull = Ok gr"
    using assms(3) by (cases rd) (auto split: option.splits)
  then show ?thesis
    using assms by (simp add: show_all_doc_def let_val_Ok)
qed

lemma test_doc_inline:
  assumes "has_raw_data doc = Ok True" and "raw_data_item doc = Ok rd"
    and "subscript rd (lit ''fullGrokResponse'') = Ok gr" and "truthy gr"
  shows "test_doc E doc w = bind (test_entry doc) (\<lambda>_. test_render E gr) w"
proof -
  have "dict_get rd (lit ''fullGrokResponse'') JNull = Ok gr"
    using assms(3) by (cases rd) (auto split: option.splits)
  then show ?thesis
    using assms by (simp add: test_doc_def let_val_Ok)
qed

lemma quick_doc_not_completed:
  assumes "map_of kvs (lit ''originalName'') = Some (JStr name)"
    and "map_of kvs (lit ''status'') = Some (JStr st)"
    and "st \<noteq> lit ''completed''" and "encodable name" and "encodable st"
  shows "quick_doc E (JObj kvs) w =
     (Ok (), w\<lparr>out := out w @
        [Line ([10, 128196] @ lit '' Document: '' @ name),
         Line (lit ''   Status: '' @ st),
         Line (lit ''   '' @ [9203] @ lit '' Document not yet processed'')]\<rparr>)"
  using assms by (simp add: quick_doc_def itemf_def eval_io)

lemma quick_doc_no_request:
  assumes "subscript doc (lit ''status'') \<noteq> Ok (JStr (lit ''completed''))"
  shows "fetched (snd (quick_doc E doc w)) = fetched w"
proof -
  have "keeps_fetched (quick_doc E doc)"
  proof (cases "subscript doc (lit ''status'')")
    case (Ok st)
    then have "st \<noteq> JStr (lit ''completed'')"
      using assms by simp
    then show ?thesis
      unfolding quick_doc_def block.simps Ok let_val_Ok
      by (auto intro!: keeps_intros)
  next
    case (Raise e)
    have "keeps_fetched (let_val (Raise e) f)" for f :: "json \<Rightarrow> unit io"
      by (simp add: keeps_fetched_def let_val_def)
    then show ?thesis
      unfolding quick_doc_def block.simps Raise
      by (intro keeps_bind keeps_print keeps_ret)
  next
    case Unmodelled
    have "keeps_fetched (let_val Unmodelled f)" for f :: "json \<Rightarrow> unit io"
      by (simp add: keeps_fetched_def let_val_def)
    then show ?thesis
      unfolding quick_doc_def block.simps Unmodelled
      by (intro keeps_bind keeps_print keeps_ret)
  qed
  then show ?thesis
    by (simp add: keeps_fetched_def)
qed

lemma quick_doc_completed:
  assumes "map_of kvs (lit ''originalName'') = Some (JStr name)" and "encodable name"
    and "map_of kvs (lit ''status'') = Some (JStr (lit ''completed''))"
    and "map_of kvs (lit ''id'') = Some (JStr i)"
    and "http_get E (detail_url i) = Ok r" and "status_code r = 200" and "body r = Ok data"
    and "subscript data (lit ''fullGrokResponse'') = Ok gr"
  shows "quick_doc E (JObj kvs) w =
      try_except (quick_render gr) is_Exception
        (\<lambda>e. emit (Report (lit ''   '' @ [10060] @ lit '' Error accessing Grok response: '') e))
        (w\<lparr>out := out w @ [Line ([10, 128196] @ lit '' Document: '' @ name),
                             Line (lit ''   Status: completed'')],
           fetched := fetched w @ [detail_url i]\<rparr>)"
  using assms
  by (simp add: quick_doc_def itemf_def grok_response_url_def detail_url_def eval_io
      lit_append [symmetric] split: prod.splits res.splits)

lemma quick_doc_ignores_property_data:
  "quick_doc E (JObj ((lit ''propertyData'', pd) # kvs)) w = quick_doc E (JObj kvs) w"
proof -
  have k: "subscript (JObj ((lit ''propertyData'', pd) # kvs)) (lit ''originalName'') =
        subscript (JObj kvs) (lit ''originalName'')"
      "subscript (JObj ((lit ''propertyData'', pd) # kvs)) (lit ''status'') =
        subscript (JObj kvs) (lit ''status'')"
      "subscript (JObj ((lit ''propertyData'', pd) # kvs)) (lit ''id'') =
        subscript (JObj kvs) (lit ''id'')"
    by simp_all
  show ?thesis
    unfolding quick_doc_def itemf_def k ..
qed

subsection \<open>Documents that are not completed\<close>

text \<open>
  Claim C3, as stated, fails. \<open>show_all_grok_responses.py\<close> never looks at the status:
  for a document whose status is \<open>pending\<close> and that carries a record under
  \<open>propertyData.rawExtractedData.fullGrokResponse\<close>, the body of its loop prints the
  record and saves it, and prints no notice.
\<close>

theorem not_completed_counterexample:
  "show_all_doc env_offline 0 (1, doc_pending_inline) world0 =
     (Ok 1, world0\<lparr>out :=
        [Line ([10] @ lit ''1. Document: deed.pdf''),
         Line (lit ''   ID: 7f3a9c1e-52b0-4d6e-9a01-3c5d8e2f1b77''),
         Line (lit ''   Status: pending''),
         Line (lit ''   Uploaded: 2024-01-15T10:30:00.000Z''),
         Line (lit ''   '' @ [9989] @ lit '' FULL GROK RESPONSE AVAILABLE''),
         Line (lit ''   Model: grok-2''),
         Line (lit ''   Tokens: 1,500''),
         Line (lit ''   Time: 0.5s''),
         Line (lit ''   Raw response: 5 chars''),
         Line (lit ''   Sample: hello...''),
         Line (lit ''   Saved to: grok_response_7f3a9c1e.json'')],
       files := [(lit ''grok_response_7f3a9c1e.json'', dumps record_hello)]\<rparr>)"
  by (simp add: show_all_doc_def show_all_entry_def show_all_render_def show_all_metrics_def
      show_all_classification_def show_all_sample_def show_all_save_def doc_pending_inline_def
      inline_data_def record_hello_def env_offline_def world0_def has_raw_data_def raw_data_item_def
      classification_def response_filename_def itemf_def getf_def dumpable_def open_name_def
      is_surrogate_def eval_io eval_float eval_text)

text \<open>
  Claim C3, amended. In \<open>quick_grok_access.py\<close>, for a document whose status is not
  \<open>completed\<close> the body of the loop asks the server nothing (\<open>fetched\<close> is unchanged),
  whatever else the document holds; and when the name and the status are texts that
  can be printed, it prints them and then the notice that the document is not yet
  processed, and nothing of a record. \<open>show_all_grok_responses.py\<close> and
  \<open>test_grok_access.py\<close> do not look at the status: when the document carries a record
  under \<open>propertyData.rawExtractedData.fullGrokResponse\<close> they render it, whatever the
  status.
\<close>

theorem quick_not_completed:
  "(map_of kvs (lit ''originalName'') = Some (JStr name) \<and>
    map_of kvs (lit ''status'') = Some (JStr st) \<and> st \<noteq> lit ''completed'' \<and>
    encodable name \<and> encodable st \<longrightarrow>
      quick_doc E (JObj kvs) w =
        (Ok (), w\<lparr>out := out w @
           [Line ([10, 128196] @ lit '' Document: '' @ name),
            Line (lit ''   Status: '' @ st),
            Line (lit ''   '' @ [9203] @ lit '' Document not yet processed'')]\<rparr>)) \<and>
   (subscript doc (lit ''status'') \<noteq> Ok (JStr (lit ''completed'')) \<longrightarrow>
      fetched (snd (quick_doc E doc w)) = fetched w) \<and>
   (has_raw_data doc = Ok True \<and> raw_data_item doc = Ok rd \<and>
    subscript rd (lit ''fullGrokResponse'') = Ok gr \<and> truthy gr \<longrightarrow>
      show_all_doc E c (n, doc) w =
        bind (show_all_entry n doc) (\<lambda>_. bind (show_all_render E doc gr) (\<lambda>_. ret (Suc c))) w \<and>
      test_doc E doc w = bind (test_entry doc) (\<lambda>_. test_render E gr) w)"
  using quick_doc_not_completed [of kvs name st E w] quick_doc_no_request [of doc E w]
    show_all_doc_inline [of doc rd gr E c n w] test_doc_inline [of doc rd gr E w]
  by blast

theorem quick_not_completed_witness:
  "quick_doc env_detail doc_pending world0 =
     (Ok (), world0\<lparr>out :=
        [Line ([10, 128196] @ lit '' Document: deed.pdf''),
         Line (lit ''   Status: pending''),
         Line (lit ''   '' @ [9203] @ lit '' Document not yet processed'')]\<rparr>) \<and>
   fetched (snd (quick_doc env_detail doc_pending_inline world0)) = [] \<and>
   show_all_doc env_detail 0 (1, doc_pending_inline) world0 =
     bind (show_all_entry 1 doc_pending_inline)
       (\<lambda>_. bind (show_all_render env_detail doc_pending_inline record_hello) (\<lambda>_. ret (Suc 0)))
       world0 \<and>
   test_doc env_detail doc_pending_inline world0 =
     bind (test_entry doc_pending_inline) (\<lambda>_. test_render env_detail record_hello) world0"
  using quick_not_completed [of "[(lit ''id'', JStr (lit ''7f3a9c1e-52b0-4d6e-9a01-3c5d8e2f1b77'')),
      (lit ''originalName'', JStr (lit ''deed.pdf'')),
      (lit ''status'', JStr (lit ''pending'')),
      (lit ''uploadedAt'', JStr (lit ''2024-01-15T10:30:00.000Z''))]" "lit ''deed.pdf''"
      "lit ''pending''" env_detail world0 doc_pending_inline
      "JObj [(lit ''fullGrokResponse'', record_hello)]" record_hello 0 1]
  by (simp add: doc_pending_def doc_pending_inline_def inline_data_def has_raw_data_def
      raw_data_item_def record_hello_def lit_append [symmetric])

subsection \<open>Where the record is read from\<close>

lemma list_doc_not_listed: "has_grok doc = Ok False \<Longrightarrow> list_doc g doc w = (Ok g, w)"
  by (simp add: list_doc_def let_val_def ret_def)

lemma main_iteration_ids:
  assumes "map (\<lambda>d. subscript d (lit ''id'')) g' = map (\<lambda>d. subscript d (lit ''id'')) g"
  shows "main_iteration E decode encode g' evs = main_iteration E decode encode g evs"
proof -
  have len: "length g' = length g"
    using assms by (rule map_eq_imp_length_eq)
  have key: "subscript (g' ! k) (lit ''id'') = subscript (g ! k) (lit ''id'')" if "k < length g" for k
  proof -
    have "map (\<lambda>d. subscript d (lit ''id'')) g' ! k = map (\<lambda>d. subscript d (lit ''id'')) g ! k"
      using assms by simp
    then show ?thesis
      using that len by simp
  qed
  have sel: "selection E decode encode g' line evs1 = selection E decode encode g line evs1"
    for line evs1
  proof (cases "py_int (strip line)")
    case (Ok n)
    show ?thesis
    proof (cases "1 \<le> n \<and> n \<le> int (length g)")
      case True
      then have "nat (n - 1) < length g"
        by linarith
      then have k: "subscript (g' ! nat (n - 1)) (lit ''id'') = subscript (g ! nat (n - 1)) (lit ''id'')"
        by (rule key)
      then have "response_filename (g' ! nat (n - 1)) = response_filename (g ! nat (n - 1))"
        by (simp add: response_filename_def)
      then show ?thesis
        using Ok k by (simp add: True selection_def Let_def len let_val_Ok cong: if_cong)
    next
      case False
      show ?thesis
        using Ok by (simp add: False selection_def Let_def len let_val_Ok)
    qed
  qed (simp_all add: selection_def Let_def let_val_Raise let_val_Unmodelled)
  show ?thesis
    by (simp add: main_iteration_def select_prompt_def len sel)
qed

text \<open>
  Claim C2, as stated, fails. The document is completed and carries the record under
  \<open>propertyData.rawExtractedData.fullGrokResponse\<close>; the detail endpoint answers 404.
  \<open>quick_grok_access.py\<close> reports that there is no response: it does not look at the
  record in the document.
\<close>

theorem both_locations_counterexample:
  "raw_data_item doc_completed_inline = Ok (JObj [(lit ''fullGrokResponse'', record_hello)]) \<and>
   quick_doc env_no_detail doc_completed_inline world0 =
     (Ok (), world0\<lparr>out :=
        [Line ([10, 128196] @ lit '' Document: deed.pdf''),
         Line (lit ''   Status: completed''),
         Line (lit ''   '' @ [10060] @ lit '' No Grok response: 404'')],
       fetched :=
        [lit ''http://localhost:5000/api/documents/7f3a9c1e-52b0-4d6e-9a01-3c5d8e2f1b77/grok-response'']\<rparr>)"
  by (simp add: quick_doc_def doc_completed_inline_def inline_data_def env_no_detail_def world0_def
      raw_data_item_def grok_response_url_def documents_url_def itemf_def is_Exception_def
      is_surrogate_def eval_io eval_text)

text \<open>
  Claim C2, amended. No script checks both places.

  \<open>quick_grok_access.py\<close> reads the record from the \<open>fullGrokResponse\<close> field of the detail
  endpoint only: what it does for a document does not depend on the document's
  \<open>propertyData\<close>, and for a completed document whose detail request is answered with
  status 200 it renders that field.

  \<open>show_all_grok_responses.py\<close> and \<open>test_grok_access.py\<close> read the record from
  \<open>propertyData.rawExtractedData.fullGrokResponse\<close> of the Document Summary only: what
  they do with a document asks the server nothing and does not depend on what the
  server would answer (two surroundings that allow the same files to be written give
  the same run), and they render the record found there when it is not empty.

  \<open>view_grok_responses.py\<close> lists a document only when \<open>propertyData.fullGrokResponse\<close>
  (a third place) is present and not null, and what its loop does with the listed
  documents depends on them only through their number and their ids: the record it
  renders is the one the detail endpoint serves.
\<close>

theorem one_location_each:
  "quick_doc E (JObj ((lit ''propertyData'', pd) # kvs)) w = quick_doc E (JObj kvs) w \<and>
   (map_of kvs (lit ''originalName'') = Some (JStr name) \<and> encodable name \<and>
    map_of kvs (lit ''status'') = Some (JStr (lit ''completed'')) \<and>
    map_of kvs (lit ''id'') = Some (JStr i) \<and>
    http_get E (detail_url i) = Ok r \<and> status_code r = 200 \<and> body r = Ok data \<and>
    subscript data (lit ''fullGrokResponse'') = Ok gr' \<longrightarrow>
    quick_doc E (JObj kvs) w =
      try_except (quick_render gr') is_Exception
        (\<lambda>e. emit (Report (lit ''   '' @ [10060] @ lit '' Error accessing Grok response: '') e))
        (w\<lparr>out := out w @ [Line ([10, 128196] @ lit '' Document: '' @ name),
                             Line (lit ''   Status: completed'')],
           fetched := fetched w @ [detail_url i]\<rparr>)) \<and>
   (writable E' = writable E \<longrightarrow>
      show_all_doc E' c idoc w = show_all_doc E c idoc w \<and> test_doc E' doc w = test_doc E doc w) \<and>
   fetched (snd (show_all_doc E c idoc w)) = fetched w \<and>
   fetched (snd (test_doc E doc w)) = fetched w \<and>
   (has_raw_data doc = Ok True \<and> raw_data_item doc = Ok rd \<and>
    subscript rd (lit ''fullGrokResponse'') = Ok gr \<and> truthy gr \<longrightarrow>
      show_all_doc E c (n, doc) w =
        bind (show_all_entry n doc) (\<lambda>_. bind (show_all_render E doc gr) (\<lambda>_. ret (Suc c))) w \<and>
      test_doc E doc w = bind (test_entry doc) (\<lambda>_. test_render E gr) w) \<and>
   (has_grok doc = Ok False \<longrightarrow> list_doc g doc w = (Ok g, w)) \<and>
   (map (\<lambda>d. subscript d (lit ''id'')) g' = map (\<lambda>d. subscript d (lit ''id'')) g \<longrightarrow>
      main_iteration E decode encode g' evs w = main_iteration E decode encode g evs w)"
proof -
  have a: "fetched (snd (show_all_doc E c idoc w)) = fetched w"
    using keeps_show_all_doc [of E c idoc] by (simp add: keeps_fetched_def)
  have b: "fetched (snd (test_doc E doc w)) = fetched w"
    using keeps_test_doc [of E doc] by (simp add: keeps_fetched_def)
  show ?thesis
    using a b quick_doc_ignores_property_data [of E pd kvs w]
      quick_doc_completed [of kvs name i E r data gr' w]
      show_all_doc_cong [of E' E c idoc] test_doc_cong [of E' E doc]
      show_all_doc_inline [of doc rd gr E c n w] test_doc_inline [of doc rd gr E w]
      list_doc_not_listed [of doc g w] main_iteration_ids [of g' g E decode encode evs]
    by simp
qed

theorem one_location_each_witness:
  "quick_doc env_detail doc_completed_inline world0 =
     try_except (quick_render record_hello) is_Exception
       (\<lambda>e. emit (Report (lit ''   '' @ [10060] @ lit '' Error accessing Grok response: '') e))
       (world0\<lparr>out := [Line ([10, 128196] @ lit '' Document: deed.pdf''),
                        Line (lit ''   Status: completed'')],
          fetched := [detail_url (lit ''7f3a9c1e-52b0-4d6e-9a01-3c5d8e2f1b77'')]\<rparr>) \<and>
   show_all_doc env_offline 0 (1, doc_pending_inline) world0 =
     show_all_doc env_detail 0 (1, doc_pending_inline) world0 \<and>
   test_doc env_offline doc_pending_inline world0 = test_doc env_detail doc_pending_inline world0 \<and>
   show_all_doc env_detail 0 (1, doc_pending_inline) world0 =
     bind (show_all_entry 1 doc_pending_inline)
       (\<lambda>_. bind (show_all_render env_detail doc_pending_inline record_hello) (\<lambda>_. ret (Suc 0)))
       world0 \<and>
   test_doc env_detail doc_pending_inline world0 =
     bind (test_entry doc_pending_inline) (\<lambda>_. test_render env_detail record_hello) world0 \<and>
   list_doc [doc_pending] doc_pending_inline world0 = (Ok [doc_pending], world0) \<and>
   main_iteration env_detail loads json_dumps [doc_listed] [Typed (lit ''1''), Typed (lit ''n'')]
     world0 =
     main_iteration env_detail loads json_dumps [doc_pending] [Typed (lit ''1''), Typed (lit ''n'')]
       world0"
proof -
  define kvs where "kvs = [(lit ''id'', JStr (lit ''7f3a9c1e-52b0-4d6e-9a01-3c5d8e2f1b77'')),
      (lit ''originalName'', JStr (lit ''deed.pdf'')),
      (lit ''status'', JStr (lit ''completed'')),
      (lit ''uploadedAt'', JStr (lit ''2024-01-15T10:30:00.000Z'')),
      (lit ''propertyData'', inline_data)]"
  have d: "JObj kvs = doc_completed_inline"
    by (simp add: kvs_def doc_completed_inline_def)
  have h1: "map_of kvs (lit ''originalName'') = Some (JStr (lit ''deed.pdf''))"
      "map_of kvs (lit ''status'') = Some (JStr (lit ''completed''))"
      "map_of kvs (lit ''id'') = Some (JStr (lit ''7f3a9c1e-52b0-4d6e-9a01-3c5d8e2f1b77''))"
    by (simp_all add: kvs_def)
  have h2: "http_get env_detail (detail_url (lit ''7f3a9c1e-52b0-4d6e-9a01-3c5d8e2f1b77'')) =
      Ok \<lparr>status_code = 200, body = Ok detail_hello\<rparr>"
    by (simp add: env_detail_def detail_url_def documents_url_def lit_def)
  have h3: "subscript detail_hello (lit ''fullGrokResponse'') = Ok record_hello"
    by (simp add: detail_hello_def)
  have h4: "writable env_offline = writable env_detail"
    by (simp add: env_offline_def env_detail_def)
  have h5: "has_raw_data doc_pending_inline = Ok True"
      "raw_data_item doc_pending_inline = Ok (JObj [(lit ''fullGrokResponse'', record_hello)])"
      "truthy record_hello" "has_grok doc_pending_inline = Ok False"
    by (simp_all add: has_raw_data_def raw_data_item_def has_grok_def doc_pending_inline_def
        inline_data_def record_hello_def)
  have h6: "map (\<lambda>d. subscript d (lit ''id'')) [doc_listed] =
      map (\<lambda>d. subscript d (lit ''id'')) [doc_pending]"
    by (simp add: doc_listed_def doc_pending_def)
  note t = one_location_each [where E = env_detail and E' = env_offline and w = world0 and c = 0
      and n = 1 and idoc = "(1, doc_pending_inline)" and kvs = kvs and pd = JNull
      and name = "lit ''deed.pdf''" and i = "lit ''7f3a9c1e-52b0-4d6e-9a01-3c5d8e2f1b77''"
      and r = "\<lparr>status_code = 200, body = Ok detail_hello\<rparr>" and data = detail_hello
      and gr' = record_hello and gr = record_hello and doc = doc_pending_inline
      and rd = "JObj [(lit ''fullGrokResponse'', record_hello)]"
      and g = "[doc_pending]" and g' = "[doc_listed]" and decode = loads and encode = json_dumps
      and evs = "[Typed (lit ''1''), Typed (lit ''n'')]"]
  show ?thesis
    using t h1 h2 h3 h4 h5 h6 by (simp add: d lit_append [symmetric])
qed

end
